theory Spec2Isabelle
  imports Main
begin

section \<open>Bike wishlist tracker: the command-line program of main.py\<close>

text \<open>
  The program is a menu loop over a PostgreSQL connection. The embedding keeps the
  connection, the console input still to be read and the console output written so far
  in one record, and threads it through every function. A function of the program that
  returns normally yields \<open>Return\<close>; an exception that the program does not catch
  (\<open>EOFError\<close> of \<open>input\<close>, an error of the store) yields \<open>Raise\<close> and ends the run.

  Strings are lists of characters; a character stands for the code point of the same
  number (below 256).

  The password prompt and the opening of the connection (\<open>get_password\<close>,
  \<open>get_connection\<close> and the lines under \<open>__main__\<close>) come before the first
  statement and are not part of the embedding: a run starts at \<open>main_menu\<close> with an
  open connection.
\<close>

subsection \<open>Python strings\<close>

definition isspace :: "char \<Rightarrow> bool" where
  \<comment> \<open>The characters \<open>str.strip()\<close> removes: tab to carriage return, the separators
      0x1c to 0x1f, space, 0x85 and 0xa0.\<close>
  "isspace c =
     (let n = (of_char c :: nat)
      in (9 \<le> n \<and> n \<le> 13) \<or> (28 \<le> n \<and> n \<le> 32) \<or> n = 133 \<or> n = 160)"

definition strip :: "string \<Rightarrow> string" where
  "strip s = rev (dropWhile isspace (rev (dropWhile isspace s)))"

definition lower_char :: "char \<Rightarrow> char" where
  \<comment> \<open>\<open>A\<close> to \<open>Z\<close>, and 0xc0 to 0xde without the multiplication sign 0xd7.\<close>
  "lower_char c =
     (let n = (of_char c :: nat)
      in if (65 \<le> n \<and> n \<le> 90) \<or> (192 \<le> n \<and> n \<le> 222 \<and> n \<noteq> 215)
         then char_of (n + 32) else c)"

definition lower :: "string \<Rightarrow> string" where
  "lower s = map lower_char s"

fun startswith :: "string \<Rightarrow> string \<Rightarrow> bool" where
  "startswith [] ys = True"
| "startswith (x # xs) [] = False"
| "startswith (x # xs) (y # ys) = (x = y \<and> startswith xs ys)"

fun contains :: "string \<Rightarrow> string \<Rightarrow> bool" where
  \<comment> \<open>\<open>contains s t\<close> is Python's \<open>s in t\<close> on strings.\<close>
  "contains s [] = (s = [])"
| "contains s (y # ys) = (startswith s (y # ys) \<or> contains s ys)"

fun join :: "string \<Rightarrow> string list \<Rightarrow> string" where
  \<comment> \<open>\<open>join sep xs\<close> is \<open>sep.join(xs)\<close>.\<close>
  "join sep [] = []"
| "join sep [x] = x"
| "join sep (x # y # ys) = x @ sep @ join sep (y # ys)"

definition quoted :: "string \<Rightarrow> string" where
  \<comment> \<open>The text \<open>'{s}'\<close> of a format string.\<close>
  "quoted s = CHR 0x27 # s @ [CHR 0x27]"

definition isdigit :: "char \<Rightarrow> bool" where
  "isdigit c = (let n = (of_char c :: nat) in 48 \<le> n \<and> n \<le> 57)"

definition digit_value :: "char \<Rightarrow> int" where
  "digit_value c = int (of_char c) - 48"

fun py_digits :: "int \<Rightarrow> string \<Rightarrow> int option" where
  \<comment> \<open>The digits of a Python integer literal, read after a first digit was seen: one
      underscore may stand between two digits.\<close>
  "py_digits acc [] = Some acc"
| "py_digits acc (c # cs) =
     (if isdigit c then py_digits (10 * acc + digit_value c) cs
      else if c = CHR ''_'' then
        (case cs of
           [] \<Rightarrow> None
         | d # ds \<Rightarrow> if isdigit d then py_digits acc cs else None)
      else None)"

definition py_int :: "string \<Rightarrow> int option" where
  \<comment> \<open>\<open>int(s)\<close> on a string; \<open>None\<close> is \<open>ValueError\<close>. Whitespace around the literal is
      skipped, a sign may come first, and a digit must follow it. The interpreter
      refuses a literal of more than 4300 digits (its default limit since version
      3.11).\<close>
  "py_int s =
     (let t = strip s;
          neg = (case t of [] \<Rightarrow> False | c # cs \<Rightarrow> c = CHR ''-'');
          u = (case t of [] \<Rightarrow> [] | c # cs \<Rightarrow> if c = CHR ''-'' \<or> c = CHR ''+'' then cs else t)
      in case u of
           [] \<Rightarrow> None
         | d # ds \<Rightarrow>
             if isdigit d \<and> length (filter isdigit u) \<le> 4300
             then map_option (\<lambda>n. if neg then - n else n) (py_digits 0 u)
             else None)"

function str_nat :: "nat \<Rightarrow> string" where
  "str_nat n =
     (if n < 10 then [char_of (48 + n)] else str_nat (n div 10) @ [char_of (48 + n mod 10)])"
  by pat_completeness auto
termination
  by (relation "measure (\<lambda>n. n)") auto

definition str_int :: "int \<Rightarrow> string" where
  \<comment> \<open>\<open>str(i)\<close>, as a format string prints an integer.\<close>
  "str_int i = (if i < 0 then CHR ''-'' # str_nat (nat (- i)) else str_nat (nat i))"

subsection \<open>The store\<close>

text \<open>
  The tables are created outside the repository; the program names them and their
  columns in its statements. A table is the list of its rows. What the store itself
  refuses is taken from section 6 of the specification, which declares the tables:
  \<open>product_id\<close> and \<open>number\<close> are \<open>INT\<close> columns, \<open>wishlist_name\<close> is the primary
  key of \<open>List_Tracker\<close>, and a row of \<open>Wish_List\<close> references a row of
  \<open>List_Tracker\<close> and a row of \<open>Products\<close>. The references have no \<open>ON DELETE\<close>
  clause. A statement that breaks one of these rules raises the error of the store and
  changes nothing; the program catches no such error, so the run ends there.
\<close>

record wish =
  wishlist_name :: string
  product_id :: int
  number :: int
  owned :: bool

record store =
  List_Tracker :: "string list"
  Categories :: "(int \<times> string) list"
  Products :: "(int \<times> string \<times> int) list"
  Wish_List :: "wish list"

text \<open>
  \<open>EOFError\<close> is raised by \<open>input\<close> at the end of the input. \<open>DataError\<close> is the
  error for a value that does not fit its column (psycopg raises it for a text that is
  no integer, for an integer out of range, and for a text parameter that holds the
  character of code 0). \<open>UniqueViolation\<close> and \<open>ForeignKeyViolation\<close> are the errors
  of psycopg for a second row with a primary key and for a broken reference.
\<close>

datatype error = EOFError | DataError | UniqueViolation | ForeignKeyViolation

record world =
  conn :: store
  stdin :: "string list"
  stdout :: "string list"

datatype 'a result = Return 'a world | Raise error world

definition world_of :: "'a result \<Rightarrow> world" where
  \<comment> \<open>The state in which a call ends, whether it returned or raised.\<close>
  "world_of r = (case r of Return x w \<Rightarrow> w | Raise e w \<Rightarrow> w)"

definition returned :: "'a result \<Rightarrow> bool" where
  "returned r = (case r of Return x w \<Rightarrow> True | Raise e w \<Rightarrow> False)"

lemma world_of_simps [simp]: "world_of (Return x w) = w" "world_of (Raise e w) = w"
  by (simp_all add: world_of_def)

lemma returned_simps [simp]: "returned (Return x w) = True" "returned (Raise e w) = False"
  by (simp_all add: returned_def)

definition print :: "string \<Rightarrow> world \<Rightarrow> world" where
  "print s w = w\<lparr>stdout := stdout w @ [s]\<rparr>"

definition input :: "string \<Rightarrow> world \<Rightarrow> string result" where
  \<comment> \<open>\<open>input(prompt)\<close>: writes the prompt and reads one line; \<open>EOFError\<close> at the end of
      the input.\<close>
  "input prompt w =
     (case stdin w of
        [] \<Rightarrow> Raise EOFError (print prompt w)
      | l # ls \<Rightarrow> Return l ((print prompt w)\<lparr>stdin := ls\<rparr>))"

subsection \<open>Values sent to the store\<close>

text \<open>
  The program sends a product ID either as the text the user typed or as the integer a
  query returned, and a quantity as a Python integer.
\<close>

datatype pyval = PyStr string | PyInt int

definition in_int4 :: "int \<Rightarrow> bool" where
  "in_int4 n = (- 2147483648 \<le> n \<and> n \<le> 2147483647)"

fun dec_digits :: "int \<Rightarrow> string \<Rightarrow> int option" where
  "dec_digits acc [] = Some acc"
| "dec_digits acc (c # cs) =
     (if isdigit c then dec_digits (10 * acc + digit_value c) cs else None)"

definition int4in :: "string \<Rightarrow> int option" where
  \<comment> \<open>Modelled from the spec: the tables are declared outside the source, and section 6
      of the specification gives \<open>product_id INT\<close> and \<open>number INT\<close>. A text parameter
      compared with or stored in such a column is read by the store as a decimal integer
      (a sign, then digits) of 32 bits; \<open>None\<close> is the store's error.\<close>
  "int4in s =
     (let neg = (case s of [] \<Rightarrow> False | c # cs \<Rightarrow> c = CHR ''-'');
          u = (case s of [] \<Rightarrow> [] | c # cs \<Rightarrow> if c = CHR ''-'' \<or> c = CHR ''+'' then cs else s)
      in case u of
           [] \<Rightarrow> None
         | d # ds \<Rightarrow>
             (case dec_digits 0 u of
                None \<Rightarrow> None
              | Some n \<Rightarrow>
                  (let v = (if neg then - n else n) in if in_int4 v then Some v else None)))"

definition compared :: "pyval \<Rightarrow> int option" where
  \<comment> \<open>The integer a parameter stands for in \<open>product_id = %s\<close>: a text is read by
      \<open>int4in\<close>; an integer is compared as it is.\<close>
  "compared v = (case v of PyStr s \<Rightarrow> int4in s | PyInt n \<Rightarrow> Some n)"

definition stored :: "pyval \<Rightarrow> int option" where
  \<comment> \<open>The integer a parameter becomes in an \<open>INT\<close> column: an integer outside 32 bits
      is the store's error.\<close>
  "stored v = (case v of PyStr s \<Rightarrow> int4in s | PyInt n \<Rightarrow> if in_int4 n then Some n else None)"

definition known_product :: "int \<Rightarrow> store \<Rightarrow> bool" where
  \<comment> \<open>The catalogue has a product with this ID.\<close>
  "known_product p db = (p \<in> set (map fst (Products db)))"

definition text_param :: "string \<Rightarrow> bool" where
  \<comment> \<open>psycopg sends a text as a parameter only if it holds no character of code 0.\<close>
  "text_param s = (CHR 0x00 \<notin> set s)"

subsection \<open>Statements on the items table\<close>

definition select_Wish_List :: "string \<Rightarrow> pyval \<Rightarrow> store \<Rightarrow> error + wish list" where
  \<comment> \<open>\<open>SELECT product_id FROM "Wish_List" WHERE wishlist_name = %s AND product_id = %s\<close>\<close>
  "select_Wish_List wl pid db =
     (case compared pid of
        None \<Rightarrow> Inl DataError
      | Some p \<Rightarrow> Inr (filter (\<lambda>r. wishlist_name r = wl \<and> product_id r = p) (Wish_List db)))"

definition insert_Wish_List :: "string \<Rightarrow> pyval \<Rightarrow> int \<Rightarrow> store \<Rightarrow> error + store" where
  \<comment> \<open>\<open>INSERT INTO "Wish_List" (wishlist_name, product_id, number, owned)
      VALUES (%s, %s, %s, FALSE)\<close> and the commit.
      Modelled from the spec: section 6 declares \<open>wishlist_name TEXT REFERENCES
      List_Tracker\<close> and \<open>product_id INT REFERENCES Products\<close>, so the store refuses a
      row whose wishlist is not in the registry or whose product is not in the
      catalogue. The values are read first, the references are checked at the end of
      the statement.\<close>
  "insert_Wish_List wl pid quantity db =
     (case stored pid of
        None \<Rightarrow> Inl DataError
      | Some p \<Rightarrow>
          if in_int4 quantity
          then if wl \<in> set (List_Tracker db) \<and> known_product p db
               then Inr (db\<lparr>Wish_List := Wish_List db @
                      [\<lparr>wishlist_name = wl, product_id = p, number = quantity, owned = False\<rparr>]\<rparr>)
               else Inl ForeignKeyViolation
          else Inl DataError)"

definition delete_Wish_List :: "string \<Rightarrow> pyval \<Rightarrow> store \<Rightarrow> error + store" where
  \<comment> \<open>\<open>DELETE FROM "Wish_List" WHERE wishlist_name = %s AND product_id = %s\<close> and the
      commit.\<close>
  "delete_Wish_List wl pid db =
     (case compared pid of
        None \<Rightarrow> Inl DataError
      | Some p \<Rightarrow>
          Inr (db\<lparr>Wish_List :=
                 filter (\<lambda>r. \<not> (wishlist_name r = wl \<and> product_id r = p)) (Wish_List db)\<rparr>))"

definition update_number :: "int \<Rightarrow> string \<Rightarrow> pyval \<Rightarrow> store \<Rightarrow> error + store" where
  \<comment> \<open>\<open>UPDATE "Wish_List" SET number = %s WHERE wishlist_name = %s AND product_id = %s\<close>
      and the commit.\<close>
  "update_number quantity wl pid db =
     (case compared pid of
        None \<Rightarrow> Inl DataError
      | Some p \<Rightarrow>
          if in_int4 quantity
          then Inr (db\<lparr>Wish_List :=
                 map (\<lambda>r. if wishlist_name r = wl \<and> product_id r = p
                           then r\<lparr>number := quantity\<rparr> else r) (Wish_List db)\<rparr>)
          else Inl DataError)"

definition update_owned :: "bool \<Rightarrow> string \<Rightarrow> pyval \<Rightarrow> store \<Rightarrow> error + store" where
  \<comment> \<open>\<open>UPDATE "Wish_List" SET owned = %s WHERE wishlist_name = %s AND product_id = %s\<close>
      and the commit.\<close>
  "update_owned flag wl pid db =
     (case compared pid of
        None \<Rightarrow> Inl DataError
      | Some p \<Rightarrow>
          Inr (db\<lparr>Wish_List :=
                 map (\<lambda>r. if wishlist_name r = wl \<and> product_id r = p
                           then r\<lparr>owned := flag\<rparr> else r) (Wish_List db)\<rparr>))"

definition fetch_items :: "string \<Rightarrow> store \<Rightarrow> (int \<times> string \<times> int \<times> bool) list" where
  \<comment> \<open>\<open>SELECT p.product_id, p.product_name, wl.number, wl.owned FROM "Wish_List" wl
      JOIN "Products" p ON wl.product_id = p.product_id WHERE wl.wishlist_name = %s\<close>\<close>
  "fetch_items wl db =
     concat (map (\<lambda>r. map (\<lambda>(pid, pname, pcat). (pid, pname, number r, owned r))
                        (filter (\<lambda>(pid, pname, pcat). product_id r = pid) (Products db)))
                 (filter (\<lambda>r. wishlist_name r = wl) (Wish_List db)))"

subsection \<open>Pattern matching on product names\<close>

fun like :: "string \<Rightarrow> string \<Rightarrow> bool" where
  \<comment> \<open>\<open>like p t\<close>: the text \<open>t\<close> matches the pattern \<open>p\<close> of \<open>LIKE\<close>. A percent sign
      matches any run of characters, an underscore any one character, and a backslash
      makes the character after it stand for itself. A pattern that ends in a lone
      backslash is an error of the store; the patterns the program builds end in a
      percent sign.\<close>
  "like [] t = (t = [])"
| "like (c # p) t =
     (if c = CHR 0x5C then
        (case p of
           [] \<Rightarrow> False
         | d # q \<Rightarrow> (case t of [] \<Rightarrow> False | x # xs \<Rightarrow> d = x \<and> like q xs))
      else if c = CHR ''%'' then
        (like p t \<or> (case t of [] \<Rightarrow> False | x # xs \<Rightarrow> like (c # p) xs))
      else if c = CHR ''_'' then
        (case t of [] \<Rightarrow> False | x # xs \<Rightarrow> like p xs)
      else
        (case t of [] \<Rightarrow> False | x # xs \<Rightarrow> c = x \<and> like p xs))"

definition ilike :: "string \<Rightarrow> string \<Rightarrow> bool" where
  \<comment> \<open>\<open>t ILIKE p\<close>: \<open>LIKE\<close> without regard to case. The store is taken to fold case as
      \<open>lower\<close> does.\<close>
  "ilike t p = like (lower p) (lower t)"

definition select_Products_ilike :: "string \<Rightarrow> store \<Rightarrow> (int \<times> string) list" where
  \<comment> \<open>\<open>SELECT product_id, product_name FROM "Products" WHERE product_name ILIKE %s\<close>\<close>
  "select_Products_ilike pattern db =
     map (\<lambda>(pid, pname, pcat). (pid, pname))
         (filter (\<lambda>(pid, pname, pcat). ilike pname pattern) (Products db))"

subsection \<open>The wishlist registry\<close>

definition get_all_wishlists :: "world \<Rightarrow> string list" where
  "get_all_wishlists w = List_Tracker (conn w)"

definition select_List_Tracker :: "string \<Rightarrow> store \<Rightarrow> error + string list" where
  \<comment> \<open>\<open>SELECT "wishlist_name" FROM "List_Tracker" WHERE "wishlist_name" = %s\<close>\<close>
  "select_List_Tracker name db =
     (if text_param name then Inr (filter (\<lambda>n. n = name) (List_Tracker db))
      else Inl DataError)"

definition insert_List_Tracker :: "string \<Rightarrow> store \<Rightarrow> error + store" where
  \<comment> \<open>\<open>INSERT INTO "List_Tracker" ("wishlist_name") VALUES (%s)\<close> and the commit.
      Modelled from the spec: section 6 declares \<open>wishlist_name TEXT PRIMARY KEY\<close>, so
      the store refuses a name that the registry already has.\<close>
  "insert_List_Tracker name db =
     (if text_param name
      then if name \<in> set (List_Tracker db) then Inl UniqueViolation
           else Inr (db\<lparr>List_Tracker := List_Tracker db @ [name]\<rparr>)
      else Inl DataError)"

definition delete_List_Tracker :: "string \<Rightarrow> store \<Rightarrow> error + store" where
  \<comment> \<open>\<open>DELETE FROM "List_Tracker" WHERE "wishlist_name" = %s\<close> and the commit.
      Modelled from the spec: section 6 declares \<open>wishlist_name TEXT REFERENCES
      List_Tracker\<close> in \<open>Wish_List\<close>, with no \<open>ON DELETE\<close> clause, so the store
      refuses to delete a wishlist that a row of \<open>Wish_List\<close> names, and deletes no
      item with a wishlist. The name sent is one that \<open>deleteList\<close> found in the
      registry.\<close>
  "delete_List_Tracker name db =
     (if name \<in> set (List_Tracker db) \<and> filter (\<lambda>r. wishlist_name r = name) (Wish_List db) \<noteq> []
      then Inl ForeignKeyViolation
      else Inr (db\<lparr>List_Tracker := filter (\<lambda>n. n \<noteq> name) (List_Tracker db)\<rparr>))"

definition createList :: "string \<Rightarrow> world \<Rightarrow> unit result" where
  "createList name w =
     (if lower (strip name) = ''exit'' then Return () (print ''Operation canceled.'' w)
      else
        (case select_List_Tracker name (conn w) of
           Inl e \<Rightarrow> Raise e w
         | Inr (r # rs) \<Rightarrow>
             Return () (print (''Wishlist '' @ quoted name @ '' already exists.'') w)
         | Inr [] \<Rightarrow>
             (case insert_List_Tracker name (conn w) of
                Inl e \<Rightarrow> Raise e w
              | Inr db \<Rightarrow>
                  Return () (print (''Wishlist '' @ quoted name @ '' added successfully.'')
                               (w\<lparr>conn := db\<rparr>)))))"

definition deleteList :: "string \<Rightarrow> world \<Rightarrow> unit result" where
  "deleteList name w =
     (if lower (strip name) = ''exit'' then Return () (print ''Operation canceled.'' w)
      else
        let wishlists = List_Tracker (conn w) in
        if name \<notin> set wishlists then
          (let similar = filter (\<lambda>wl. contains (lower name) (lower wl)) wishlists in
           if similar \<noteq> []
           then Return () (print (''Wishlist '' @ quoted name @ '' does not exist. Did you mean: ''
                                  @ join '', '' similar @ ''?'') w)
           else Return () (print (''Wishlist '' @ quoted name @ '' does not exist.'') w))
        else
          (case delete_List_Tracker name (conn w) of
             Inl e \<Rightarrow> Raise e w
           | Inr db \<Rightarrow>
               Return () (print (''Wishlist '' @ quoted name @ '' removed successfully.'')
                            (w\<lparr>conn := db\<rparr>))))"

subsection \<open>The product browser\<close>

definition list_categories :: "store \<Rightarrow> (int \<times> string) list" where
  \<comment> \<open>\<open>SELECT category_id, category_name FROM "Categories"\<close>\<close>
  "list_categories db = Categories db"

definition fetch_products_by_category ::
    "int option \<Rightarrow> store \<Rightarrow> (int \<times> string \<times> string) list" where
  \<comment> \<open>The join of products and categories; \<open>if category_id:\<close> takes the filtered
      branch for an integer other than zero.\<close>
  "fetch_products_by_category category_id db =
     (let products =
            (if category_id \<noteq> None \<and> category_id \<noteq> Some 0
             then filter (\<lambda>(pid, pname, pcat). Some pcat = category_id) (Products db)
             else Products db)
      in concat (map (\<lambda>(pid, pname, pcat).
                        map (\<lambda>(cid, cname). (pid, pname, cname))
                            (filter (\<lambda>(cid, cname). pcat = cid) (Categories db)))
                     products))"

definition category_name_of :: "(int \<times> string) list \<Rightarrow> int option \<Rightarrow> string" where
  "category_name_of categories current_category =
     (case current_category of
        None \<Rightarrow> ''All''
      | Some c \<Rightarrow>
          (case filter (\<lambda>(cid, cname). cid = c) categories of
             [] \<Rightarrow> ''Unknown''
           | (cid, cname) # rest \<Rightarrow> cname))"

definition print_products :: "(int \<times> string \<times> string) list \<Rightarrow> world \<Rightarrow> world" where
  "print_products products w =
     (if products = [] then print ''No products found.'' w
      else fold (\<lambda>(pid, pname, cname).
                   print (''ID: '' @ str_int pid @ '', Name: '' @ pname @ '', Type: '' @ cname))
                products w)"

definition change_category :: "(int \<times> string) list \<Rightarrow> world \<Rightarrow> (int option) result" where
  \<comment> \<open>Choice 1 of the browser: the new category, \<open>None\<close> for all products.\<close>
  "change_category categories w0 =
     (let w1 = print ''\<newline>Available Categories:'' w0;
          w2 = fold (\<lambda>(cid, cname). print (''ID: '' @ str_int cid @ '', Name: '' @ cname))
                 categories w1;
          w3 = print ''Enter 'all' to view all products.'' w2
      in case input ''Enter category ID: '' w3 of
           Raise e w \<Rightarrow> Raise e w
         | Return l w \<Rightarrow>
             (let category_input = lower (strip l) in
              if category_input = ''all'' then Return None w
              else
                (case py_int category_input of
                   None \<Rightarrow> Return None (print ''Invalid input. Showing all products.'' w)
                 | Some c \<Rightarrow>
                     if filter (\<lambda>(cid, cname). cid = c) categories = []
                     then Return None (print ''Invalid category. Showing all products.'' w)
                     else Return (Some c) w)))"

definition show_products :: "(int \<times> string) list \<Rightarrow> int option \<Rightarrow> world \<Rightarrow> world" where
  \<comment> \<open>What one turn of the browser prints before it asks for a choice.\<close>
  "show_products categories current_category w =
     print ''2. Return to Wishlist Menu''
       (print ''1. Change Category''
         (print ''\<newline>Options:''
           (print_products (fetch_products_by_category current_category (conn w))
             (print (''\<newline>Available Products (Category: ''
                       @ category_name_of categories current_category @ ''):'') w))))"

lemma stdin_print [simp]: "stdin (print s w) = stdin w"
  by (simp add: print_def)

lemma conn_print [simp]: "conn (print s w) = conn w"
  by (simp add: print_def)

lemma stdin_fold_print [simp]: "stdin (fold (\<lambda>x. print (f x)) xs w) = stdin w"
  by (induction xs arbitrary: w) simp_all

lemma conn_fold_print [simp]: "conn (fold (\<lambda>x. print (f x)) xs w) = conn w"
  by (induction xs arbitrary: w) simp_all

lemma input_Return:
  "input prompt w = Return l w' \<Longrightarrow> stdin w = l # stdin w' \<and> conn w' = conn w"
  by (auto simp: input_def split: list.splits)

lemma input_Raise: "input prompt w = Raise e w' \<Longrightarrow> conn w' = conn w \<and> e = EOFError"
  by (auto simp: input_def split: list.splits)

lemma stdin_print_products [simp]: "stdin (print_products ps w) = stdin w"
  by (simp add: print_products_def case_prod_unfold)

lemma conn_print_products [simp]: "conn (print_products ps w) = conn w"
  by (simp add: print_products_def case_prod_unfold)

lemma stdin_show_products [simp]: "stdin (show_products cs c w) = stdin w"
  by (simp add: show_products_def)

lemma conn_show_products [simp]: "conn (show_products cs c w) = conn w"
  by (simp add: show_products_def)

lemma change_category_Return:
  "change_category cs w = Return c w' \<Longrightarrow>
     length (stdin w') < length (stdin w) \<and> conn w' = conn w"
  by (auto simp: change_category_def Let_def case_prod_unfold
      split: result.splits if_splits option.splits dest!: input_Return)

lemma change_category_Raise: "change_category cs w = Raise e w' \<Longrightarrow> conn w' = conn w"
  by (auto simp: change_category_def Let_def case_prod_unfold
      split: result.splits if_splits option.splits dest!: input_Raise)

function product_browser :: "(int \<times> string) list \<Rightarrow> int option \<Rightarrow> world \<Rightarrow> unit result" where
  \<comment> \<open>The loop of \<open>get_product_details\<close>.\<close>
  "product_browser categories current_category w0 =
     (case input ''Enter your choice: '' (show_products categories current_category w0) of
        Raise e w \<Rightarrow> Raise e w
      | Return l w \<Rightarrow>
          (let choice = strip l in
           if choice = ''1'' then
             (case change_category categories w of
                Raise e w' \<Rightarrow> Raise e w'
              | Return c w' \<Rightarrow> product_browser categories c w')
           else if choice = ''2'' then Return () w
           else product_browser categories current_category
                  (print ''Invalid choice. Please try again.'' w)))"
  by pat_completeness auto
termination
proof (relation "measure (\<lambda>(cs, c, w). length (stdin w))")
  show "wf (measure (\<lambda>(cs, c, w). length (stdin w)))" by simp
next
  fix categories :: "(int \<times> string) list" and current_category :: "int option"
    and w0 w w' :: world and l choice :: string and c :: "int option"
  assume i: "input ''Enter your choice: '' (show_products categories current_category w0) = Return l w"
    and c: "change_category categories w = Return c w'"
  from i have "length (stdin w) < length (stdin w0)"
    by (auto dest!: input_Return)
  moreover from c have "length (stdin w') < length (stdin w)"
    by (simp add: change_category_Return)
  ultimately show "((categories, c, w'), (categories, current_category, w0))
      \<in> measure (\<lambda>(cs, c, w). length (stdin w))" by simp
next
  fix categories :: "(int \<times> string) list" and current_category :: "int option"
    and w0 w :: world and l choice :: string
  assume i: "input ''Enter your choice: '' (show_products categories current_category w0) = Return l w"
  from i have "length (stdin w) < length (stdin w0)"
    by (auto dest!: input_Return)
  then show "((categories, current_category, print ''Invalid choice. Please try again.'' w),
       (categories, current_category, w0)) \<in> measure (\<lambda>(cs, c, w). length (stdin w))" by simp
qed

definition get_product_details :: "world \<Rightarrow> unit result" where
  "get_product_details w = product_browser (list_categories (conn w)) None w"

subsection \<open>The item editor\<close>

definition show_items :: "string \<Rightarrow> world \<Rightarrow> world" where
  \<comment> \<open>What one turn of \<open>viewList\<close> prints before it asks for a choice.\<close>
  "show_items wishlist w =
     (let items = fetch_items wishlist (conn w);
          w1 = (if items = [] then print (''The wishlist '' @ quoted wishlist @ '' is empty.'') w
                else fold (\<lambda>(pid, pname, quantity, own).
                             print (''ID: '' @ str_int pid @ '', Name: '' @ pname
                                    @ '', Quantity: '' @ str_int quantity @ '', Status: ''
                                    @ (if own then ''Owned'' else ''Not Owned'')))
                       items (print (''\<newline>Items in Wishlist '' @ quoted wishlist @ '':'') w))
      in fold print
           [''\<newline>Options:'', ''1. View Products'', ''2. Add Item by ID'',
            ''3. Add Item by Name'', ''4. Remove Item'', ''5. Modify Quantity'',
            ''6. Modify Ownership Status'', ''7. Back to Main Menu''] w1)"

definition add_to_wishlist :: "string \<Rightarrow> pyval \<Rightarrow> world \<Rightarrow> unit result" where
  \<comment> \<open>The check for a row already there, the quantity prompt and the insert: lines 291
      to 319 of main.py, which lines 352 to 380 repeat word for word.\<close>
  "add_to_wishlist wishlist pid w0 =
     (case select_Wish_List wishlist pid (conn w0) of
        Inl e \<Rightarrow> Raise e w0
      | Inr (r # rs) \<Rightarrow> Return () (print ''You already have this product in your wishlist.'' w0)
      | Inr [] \<Rightarrow>
          (case input ''Enter the quantity (or type 'exit' to cancel): '' w0 of
             Raise e w \<Rightarrow> Raise e w
           | Return l w \<Rightarrow>
               (let quantity = strip l in
                if lower quantity = ''exit'' then Return () (print ''Operation canceled.'' w)
                else
                  (case py_int quantity of
                     None \<Rightarrow> Return () (print ''Invalid quantity. Please enter a number.'' w)
                   | Some q \<Rightarrow>
                       (case insert_Wish_List wishlist pid q (conn w) of
                          Inl e \<Rightarrow> Raise e w
                        | Inr db \<Rightarrow>
                            Return () (print ''Item added successfully.'' (w\<lparr>conn := db\<rparr>)))))))"

definition add_item_by_id :: "string \<Rightarrow> world \<Rightarrow> unit result" where
  \<comment> \<open>Choice 2.\<close>
  "add_item_by_id wishlist w0 =
     (case input ''Enter the product ID to add (or type 'exit' to cancel): '' w0 of
        Raise e w \<Rightarrow> Raise e w
      | Return l w \<Rightarrow>
          (let pid = strip l in
           if lower pid = ''exit'' then Return () (print ''Operation canceled.'' w)
           else add_to_wishlist wishlist (PyStr pid) w))"

definition show_matches :: "(int \<times> string) list \<Rightarrow> world \<Rightarrow> world" where
  \<comment> \<open>The list printed when a name matches more than one product.\<close>
  "show_matches ms w =
     fold (\<lambda>(pid, pname). print (''- ID: '' @ str_int pid @ '', Name: '' @ pname)) ms
       (print ''Multiple matches found:'' w)"

lemma show_matches_simps [simp]:
  "conn (show_matches ms w) = conn w" "stdin (show_matches ms w) = stdin w"
  by (simp_all add: show_matches_def case_prod_unfold)

definition add_item_by_name :: "string \<Rightarrow> world \<Rightarrow> unit result" where
  \<comment> \<open>Choice 3.\<close>
  "add_item_by_name wishlist w0 =
     (case input ''Enter the product name to add (or type 'exit' to cancel): '' w0 of
        Raise e w \<Rightarrow> Raise e w
      | Return l w \<Rightarrow>
          (let product_name = strip l in
           if lower product_name = ''exit'' then Return () (print ''Operation canceled.'' w)
           else
             (case select_Products_ilike (''%'' @ product_name @ ''%'') (conn w) of
                [] \<Rightarrow> Return () (print ''No matching products found.'' w)
              | [(pid, pname)] \<Rightarrow>
                  add_to_wishlist wishlist (PyInt pid)
                    (print (''Matched Product: '' @ pname @ '' (ID: '' @ str_int pid @ '')'') w)
              | m # m' # ms \<Rightarrow>
                  (case input ''Enter the product ID of the desired match: ''
                          (show_matches (m # m' # ms) w) of
                     Raise e w' \<Rightarrow> Raise e w'
                   | Return l' w' \<Rightarrow> add_to_wishlist wishlist (PyStr (strip l')) w'))))"

definition remove_item :: "string \<Rightarrow> world \<Rightarrow> unit result" where
  \<comment> \<open>Choice 4.\<close>
  "remove_item wishlist w0 =
     (case input ''Enter the product ID to remove (or type 'exit' to cancel): '' w0 of
        Raise e w \<Rightarrow> Raise e w
      | Return l w \<Rightarrow>
          (let pid = strip l in
           if lower pid = ''exit'' then Return () (print ''Operation canceled.'' w)
           else
             (case select_Wish_List wishlist (PyStr pid) (conn w) of
                Inl e \<Rightarrow> Raise e w
              | Inr [] \<Rightarrow>
                  Return () (print (''Product ID '' @ pid @ '' does not exist in the wishlist ''
                                    @ quoted wishlist @ ''.'') w)
              | Inr (r # rs) \<Rightarrow>
                  (case delete_Wish_List wishlist (PyStr pid) (conn w) of
                     Inl e \<Rightarrow> Raise e w
                   | Inr db \<Rightarrow>
                       Return () (print ''Item removed successfully.'' (w\<lparr>conn := db\<rparr>))))))"

definition modify_quantity :: "string \<Rightarrow> world \<Rightarrow> unit result" where
  \<comment> \<open>Choice 5.\<close>
  "modify_quantity wishlist w0 =
     (case input ''Enter the product ID to modify (or type 'exit' to cancel): '' w0 of
        Raise e w \<Rightarrow> Raise e w
      | Return l w \<Rightarrow>
          (let pid = strip l in
           if lower pid = ''exit'' then Return () (print ''Operation canceled.'' w)
           else
             (case select_Wish_List wishlist (PyStr pid) (conn w) of
                Inl e \<Rightarrow> Raise e w
              | Inr [] \<Rightarrow>
                  Return () (print (''Product ID '' @ pid @ '' does not exist in the wishlist ''
                                    @ quoted wishlist @ ''.'') w)
              | Inr (r # rs) \<Rightarrow>
                  (case input ''Enter the new quantity (or type 'exit' to cancel): '' w of
                     Raise e w' \<Rightarrow> Raise e w'
                   | Return l' w' \<Rightarrow>
                       (let quantity = strip l' in
                        if lower quantity = ''exit''
                        then Return () (print ''Operation canceled.'' w')
                        else
                          (case py_int quantity of
                             None \<Rightarrow>
                               Return () (print ''Invalid quantity. Please enter a number.'' w')
                           | Some q \<Rightarrow>
                               (case update_number q wishlist (PyStr pid) (conn w') of
                                  Inl e \<Rightarrow> Raise e w'
                                | Inr db \<Rightarrow>
                                    Return () (print ''Quantity updated successfully.''
                                                 (w'\<lparr>conn := db\<rparr>)))))))))"

definition modify_ownership :: "string \<Rightarrow> world \<Rightarrow> unit result" where
  \<comment> \<open>Choice 6.\<close>
  "modify_ownership wishlist w0 =
     (case input ''Enter the product ID to modify ownership status (or type 'exit' to cancel): '' w0 of
        Raise e w \<Rightarrow> Raise e w
      | Return l w \<Rightarrow>
          (let pid = strip l in
           if lower pid = ''exit'' then Return () (print ''Operation canceled.'' w)
           else
             (case input ''Do you own this item? (yes/no or type 'exit' to cancel): '' w of
                Raise e w' \<Rightarrow> Raise e w'
              | Return l' w' \<Rightarrow>
                  (let answer = lower (strip l') in
                   if answer = ''exit'' then Return () (print ''Operation canceled.'' w')
                   else
                     (case update_owned (answer = ''yes'') wishlist (PyStr pid) (conn w') of
                        Inl e \<Rightarrow> Raise e w'
                      | Inr db \<Rightarrow>
                          Return () (print ''Ownership status updated successfully.''
                                       (w'\<lparr>conn := db\<rparr>)))))))"

datatype flow = Continue | Break

definition continue :: "unit result \<Rightarrow> flow result" where
  \<comment> \<open>A branch that ends falls through to the next turn of its loop.\<close>
  "continue r = (case r of Return u w \<Rightarrow> Return Continue w | Raise e w \<Rightarrow> Raise e w)"

definition item_menu :: "string \<Rightarrow> string \<Rightarrow> world \<Rightarrow> flow result" where
  \<comment> \<open>The branch of \<open>viewList\<close> that a choice selects; \<open>Break\<close> leaves the loop.\<close>
  "item_menu wishlist choice w =
     (if choice = ''1'' then continue (get_product_details w)
      else if choice = ''2'' then continue (add_item_by_id wishlist w)
      else if choice = ''3'' then continue (add_item_by_name wishlist w)
      else if choice = ''4'' then continue (remove_item wishlist w)
      else if choice = ''5'' then continue (modify_quantity wishlist w)
      else if choice = ''6'' then continue (modify_ownership wishlist w)
      else if choice = ''7'' then Return Break w
      else Return Continue (print ''Invalid choice. Please try again.'' w))"

lemma continue_Return: "continue r = Return f w' \<Longrightarrow> f = Continue \<and> r = Return () w'"
  by (auto simp: continue_def split: result.splits)

lemma continue_Raise: "continue r = Raise e w' \<Longrightarrow> r = Raise e w'"
  by (auto simp: continue_def split: result.splits)

lemma stdin_show_items [simp]: "stdin (show_items wl w) = stdin w"
  by (simp add: show_items_def Let_def case_prod_unfold)

lemma conn_show_items [simp]: "conn (show_items wl w) = conn w"
  by (simp add: show_items_def Let_def case_prod_unfold)

lemma add_to_wishlist_stdin:
  "add_to_wishlist wl pid w = Return u w' \<Longrightarrow> length (stdin w') \<le> length (stdin w)"
  unfolding add_to_wishlist_def input_def Let_def
  by (auto split: sum.splits list.splits if_splits option.splits)

lemma add_item_by_id_stdin:
  "add_item_by_id wl w = Return u w' \<Longrightarrow> length (stdin w') \<le> length (stdin w)"
  unfolding add_item_by_id_def input_def Let_def
  by (auto split: list.splits if_splits dest!: add_to_wishlist_stdin)

lemma add_item_by_name_stdin:
  "add_item_by_name wl w = Return u w' \<Longrightarrow> length (stdin w') \<le> length (stdin w)"
  unfolding add_item_by_name_def input_def Let_def
  by (auto simp: case_prod_unfold split: list.splits if_splits dest!: add_to_wishlist_stdin)

lemma remove_item_stdin:
  "remove_item wl w = Return u w' \<Longrightarrow> length (stdin w') \<le> length (stdin w)"
  unfolding remove_item_def input_def Let_def
  by (auto split: sum.splits list.splits if_splits)

lemma modify_quantity_stdin:
  "modify_quantity wl w = Return u w' \<Longrightarrow> length (stdin w') \<le> length (stdin w)"
  unfolding modify_quantity_def input_def Let_def
  by (auto split: sum.splits list.splits if_splits option.splits)

lemma modify_ownership_stdin:
  "modify_ownership wl w = Return u w' \<Longrightarrow> length (stdin w') \<le> length (stdin w)"
  unfolding modify_ownership_def input_def Let_def
  by (auto split: sum.splits list.splits if_splits)


declare product_browser.simps [simp del]

lemma product_browser_stdin:
  "product_browser cs c w = Return u w' \<Longrightarrow> length (stdin w') \<le> length (stdin w)"
proof (induction cs c w rule: product_browser.induct)
  case (1 cs c w0)
  from "1.prems" obtain l w where i: "input ''Enter your choice: '' (show_products cs c w0) = Return l w"
    by (subst (asm) product_browser.simps) (auto split: result.splits)
  then have s: "length (stdin w) < length (stdin w0)" by (auto dest!: input_Return)
  show ?case
  proof (cases "strip l = ''1''")
    case True
    from "1.prems" i True obtain c' w1 where c: "change_category cs w = Return c' w1"
      and r: "product_browser cs c' w1 = Return u w'"
      by (subst (asm) product_browser.simps) (auto split: result.splits)
    from "1.IH"(1) [OF i refl True c r] have "length (stdin w') \<le> length (stdin w1)" .
    moreover from c have "length (stdin w1) < length (stdin w)" by (simp add: change_category_Return)
    ultimately show ?thesis using s by simp
  next
    case False
    note n1 = this
    show ?thesis
    proof (cases "strip l = ''2''")
      case True
      with "1.prems" i n1 have "w' = w"
        by (subst (asm) product_browser.simps) (auto split: result.splits)
      then show ?thesis using s by simp
    next
      case False
      with "1.prems" i n1 have r: "product_browser cs c (print ''Invalid choice. Please try again.'' w) = Return u w'"
        by (subst (asm) product_browser.simps) (auto split: result.splits)
      from "1.IH"(2) [OF i refl n1 False r] show ?thesis using s by simp
    qed
  qed
qed

lemma item_menu_stdin:
  "item_menu wl choice w = Return f w' \<Longrightarrow> length (stdin w') \<le> length (stdin w)"
  unfolding item_menu_def get_product_details_def
  by (auto split: if_splits
      dest!: continue_Return add_item_by_id_stdin add_item_by_name_stdin remove_item_stdin
        modify_quantity_stdin modify_ownership_stdin product_browser_stdin)

function viewList_loop :: "string \<Rightarrow> world \<Rightarrow> unit result" where
  \<comment> \<open>The \<open>while True\<close> of \<open>viewList\<close>.\<close>
  "viewList_loop wishlist w0 =
     (case input ''Enter your choice: '' (show_items wishlist w0) of
        Raise e w \<Rightarrow> Raise e w
      | Return choice w \<Rightarrow>
          (case item_menu wishlist choice w of
             Raise e w' \<Rightarrow> Raise e w'
           | Return Break w' \<Rightarrow> Return () w'
           | Return Continue w' \<Rightarrow> viewList_loop wishlist w'))"
  by pat_completeness auto
termination
proof (relation "measure (\<lambda>(wl, w). length (stdin w))")
  show "wf (measure (\<lambda>(wl, w). length (stdin w)))" by simp
next
  fix wishlist :: string and w0 w w' :: world and choice :: string and f :: flow
  assume i: "input ''Enter your choice: '' (show_items wishlist w0) = Return choice w"
    and m: "item_menu wishlist choice w = Return f w'"
  from i have "length (stdin w) < length (stdin w0)" by (auto dest!: input_Return)
  moreover from m have "length (stdin w') \<le> length (stdin w)" by (rule item_menu_stdin)
  ultimately show "((wishlist, w'), (wishlist, w0)) \<in> measure (\<lambda>(wl, w). length (stdin w))"
    by simp
qed

declare viewList_loop.simps [simp del]

definition viewList :: "string \<Rightarrow> world \<Rightarrow> unit result" where
  "viewList wishlist w =
     (if lower (strip wishlist) = ''exit'' then Return () (print ''Operation canceled.'' w)
      else if wishlist \<notin> set (List_Tracker (conn w))
      then Return () (print (''Wishlist '' @ quoted wishlist @ '' does not exist.'') w)
      else viewList_loop wishlist w)"

lemma viewList_loop_stdin:
  "viewList_loop wl w = Return u w' \<Longrightarrow> length (stdin w') \<le> length (stdin w)"
proof (induction wl w rule: viewList_loop.induct)
  case (1 wl w0)
  from "1.prems" obtain choice w where
    i: "input ''Enter your choice: '' (show_items wl w0) = Return choice w"
    by (subst (asm) viewList_loop.simps) (auto split: result.splits)
  then have s: "length (stdin w) < length (stdin w0)" by (auto dest!: input_Return)
  from "1.prems" i obtain f w1 where m: "item_menu wl choice w = Return f w1"
    by (subst (asm) viewList_loop.simps) (auto split: result.splits)
  then have s1: "length (stdin w1) \<le> length (stdin w)" by (rule item_menu_stdin)
  show ?case
  proof (cases f)
    case Continue
    with "1.prems" i m have r: "viewList_loop wl w1 = Return u w'"
      by (subst (asm) viewList_loop.simps) simp
    from "1.IH" [OF i m Continue r] show ?thesis using s s1 by simp
  next
    case Break
    with "1.prems" i m have "w' = w1"
      by (subst (asm) viewList_loop.simps) simp
    then show ?thesis using s s1 by simp
  qed
qed

lemma viewList_stdin:
  "viewList wl w = Return u w' \<Longrightarrow> length (stdin w') \<le> length (stdin w)"
  by (auto simp: viewList_def split: if_splits dest: viewList_loop_stdin)

subsection \<open>The main menu\<close>

definition show_wishlists :: "string \<Rightarrow> world \<Rightarrow> world" where
  \<comment> \<open>Choices 1 and 3 list the registry; \<open>none\<close> is the line for an empty one.\<close>
  "show_wishlists none w =
     (let wishlists = get_all_wishlists w in
      if wishlists \<noteq> []
      then fold (\<lambda>name. print (''- '' @ name)) wishlists (print ''\<newline>Available Wishlists:'' w)
      else print none w)"

definition add_wishlist :: "world \<Rightarrow> unit result" where
  \<comment> \<open>Choice 2 of the main menu.\<close>
  "add_wishlist w0 =
     (case input ''Enter a unique wishlist name (or type 'exit' to cancel): '' w0 of
        Raise e w \<Rightarrow> Raise e w
      | Return l w \<Rightarrow>
          (let name = strip l in
           if lower name = ''exit'' then Return () (print ''Operation canceled.'' w)
           else createList name w))"

definition remove_wishlist :: "world \<Rightarrow> unit result" where
  \<comment> \<open>Choice 3 of the main menu.\<close>
  "remove_wishlist w0 =
     (let w1 = show_wishlists ''\<newline>No wishlists available to remove.'' w0 in
      if get_all_wishlists w0 = [] then Return () w1
      else
        (case input ''Enter the wishlist name to remove (or type 'exit' to cancel): '' w1 of
           Raise e w \<Rightarrow> Raise e w
         | Return l w \<Rightarrow>
             (let name = strip l in
              if lower name = ''exit'' then Return () (print ''Operation canceled.'' w)
              else deleteList name w)))"

definition view_wishlist :: "world \<Rightarrow> unit result" where
  \<comment> \<open>Choice 4 of the main menu.\<close>
  "view_wishlist w0 =
     (case input ''Enter the wishlist name to view (or type 'exit' to cancel): '' w0 of
        Raise e w \<Rightarrow> Raise e w
      | Return l w \<Rightarrow>
          (let name = strip l in
           if lower name = ''exit'' then Return () (print ''Operation canceled.'' w)
           else viewList name w))"

definition main_choice :: "string \<Rightarrow> world \<Rightarrow> flow result" where
  \<comment> \<open>The branch of \<open>main_menu\<close> that a choice selects.\<close>
  "main_choice choice w =
     (if choice = ''1'' then Return Continue (show_wishlists ''\<newline>No wishlists found.'' w)
      else if choice = ''2'' then continue (add_wishlist w)
      else if choice = ''3'' then continue (remove_wishlist w)
      else if choice = ''4'' then continue (view_wishlist w)
      else if choice = ''5'' \<or> choice = ''exit'' then Return Break (print ''Goodbye!'' w)
      else Return Continue (print ''Invalid choice. Please try again.'' w))"

lemma stdin_show_wishlists [simp]: "stdin (show_wishlists none w) = stdin w"
  by (simp add: show_wishlists_def Let_def)

lemma conn_show_wishlists [simp]: "conn (show_wishlists none w) = conn w"
  by (simp add: show_wishlists_def Let_def)

lemma stdin_createList [simp]: "stdin (world_of (createList name w)) = stdin w"
  by (simp add: createList_def world_of_def split: sum.splits list.splits)

lemma stdin_deleteList [simp]: "stdin (world_of (deleteList name w)) = stdin w"
  by (simp add: deleteList_def world_of_def Let_def split: sum.splits)

lemma createList_stdin: "createList name w = Return u w' \<Longrightarrow> stdin w' = stdin w"
  using stdin_createList [of name w] by (simp add: world_of_def)

lemma deleteList_stdin: "deleteList name w = Return u w' \<Longrightarrow> stdin w' = stdin w"
  using stdin_deleteList [of name w] by (simp add: world_of_def)

lemma add_wishlist_stdin:
  "add_wishlist w = Return u w' \<Longrightarrow> length (stdin w') \<le> length (stdin w)"
  unfolding add_wishlist_def input_def Let_def
  by (auto split: list.splits if_splits dest!: createList_stdin)

lemma remove_wishlist_stdin:
  "remove_wishlist w = Return u w' \<Longrightarrow> length (stdin w') \<le> length (stdin w)"
  unfolding remove_wishlist_def input_def Let_def
  by (auto split: list.splits if_splits dest!: deleteList_stdin)

lemma view_wishlist_stdin:
  "view_wishlist w = Return u w' \<Longrightarrow> length (stdin w') \<le> length (stdin w)"
  unfolding view_wishlist_def input_def Let_def
  by (auto split: list.splits if_splits dest!: viewList_stdin)

lemma main_choice_stdin:
  assumes "main_choice choice w = Return f w'"
  shows "length (stdin w') \<le> length (stdin w)"
proof -
  consider (list) "main_choice choice w = Return Continue (show_wishlists ''\<newline>No wishlists found.'' w)"
    | (add) "main_choice choice w = continue (add_wishlist w)"
    | (remove) "main_choice choice w = continue (remove_wishlist w)"
    | (view) "main_choice choice w = continue (view_wishlist w)"
    | (leave) "main_choice choice w = Return Break (print ''Goodbye!'' w)"
    | (invalid) "main_choice choice w = Return Continue (print ''Invalid choice. Please try again.'' w)"
    unfolding main_choice_def by presburger
  then show ?thesis
  proof cases
    case list
    with assms show ?thesis by auto
  next
    case add
    with assms have "add_wishlist w = Return () w'" by (simp add: continue_Return)
    then show ?thesis by (rule add_wishlist_stdin)
  next
    case remove
    with assms have "remove_wishlist w = Return () w'" by (simp add: continue_Return)
    then show ?thesis by (rule remove_wishlist_stdin)
  next
    case view
    with assms have "view_wishlist w = Return () w'" by (simp add: continue_Return)
    then show ?thesis by (rule view_wishlist_stdin)
  next
    case leave
    with assms show ?thesis by auto
  next
    case invalid
    with assms show ?thesis by auto
  qed
qed

definition show_main_menu :: "world \<Rightarrow> world" where
  "show_main_menu w =
     fold print
       [''\<newline>=== Bike Wishlist System ==='', ''1. View All Wishlists'', ''2. Add Wishlist'',
        ''3. Remove Wishlist'', ''4. View Wishlist Items'', ''5. Exit''] w"

lemma stdin_show_main_menu [simp]: "stdin (show_main_menu w) = stdin w"
  by (simp add: show_main_menu_def)

lemma conn_show_main_menu [simp]: "conn (show_main_menu w) = conn w"
  by (simp add: show_main_menu_def)

function main_menu :: "world \<Rightarrow> unit result" where
  "main_menu w0 =
     (case input ''Enter your choice: '' (show_main_menu w0) of
        Raise e w \<Rightarrow> Raise e w
      | Return choice w \<Rightarrow>
          (case main_choice choice w of
             Raise e w' \<Rightarrow> Raise e w'
           | Return Break w' \<Rightarrow> Return () w'
           | Return Continue w' \<Rightarrow> main_menu w'))"
  by pat_completeness auto
termination
proof (relation "measure (\<lambda>w. length (stdin w))")
  show "wf (measure (\<lambda>w. length (stdin w)))" by simp
next
  fix w0 w w' :: world and choice :: string and f :: flow
  assume i: "input ''Enter your choice: '' (show_main_menu w0) = Return choice w"
    and m: "main_choice choice w = Return f w'"
  from i have "length (stdin w) < length (stdin w0)" by (auto dest!: input_Return)
  moreover from m have "length (stdin w') \<le> length (stdin w)" by (rule main_choice_stdin)
  ultimately show "(w', w0) \<in> measure (\<lambda>w. length (stdin w))" by simp
qed

declare main_menu.simps [simp del]



section \<open>What a run does to the store\<close>

text \<open>
  \<open>holds\<close> says that a wishlist has a row for a product. \<open>item_step\<close> lists the
  four changes of the items table that the item editor can make.
\<close>

definition holds :: "string \<Rightarrow> int \<Rightarrow> store \<Rightarrow> bool" where
  "holds wl p db = (filter (\<lambda>r. wishlist_name r = wl \<and> product_id r = p) (Wish_List db) \<noteq> [])"

inductive item_step :: "string \<Rightarrow> store \<Rightarrow> store \<Rightarrow> bool" for wl :: string where
  added: "\<not> holds wl p db \<Longrightarrow> wl \<in> set (List_Tracker db) \<Longrightarrow> known_product p db \<Longrightarrow>
     item_step wl db (db\<lparr>Wish_List := Wish_List db @
        [\<lparr>wishlist_name = wl, product_id = p, number = q, owned = False\<rparr>]\<rparr>)"
| removed: "item_step wl db (db\<lparr>Wish_List :=
        filter (\<lambda>r. \<not> (wishlist_name r = wl \<and> product_id r = p)) (Wish_List db)\<rparr>)"
| quantity: "item_step wl db (db\<lparr>Wish_List :=
        map (\<lambda>r. if wishlist_name r = wl \<and> product_id r = p then r\<lparr>number := q\<rparr> else r)
          (Wish_List db)\<rparr>)"
| ownership: "item_step wl db (db\<lparr>Wish_List :=
        map (\<lambda>r. if wishlist_name r = wl \<and> product_id r = p then r\<lparr>owned := b\<rparr> else r)
          (Wish_List db)\<rparr>)"

lemma stored_compared: "stored pid = Some p \<Longrightarrow> compared pid = Some p"
  by (cases pid) (auto simp: stored_def compared_def split: if_splits)

lemma add_to_wishlist_step:
  "conn (world_of (add_to_wishlist wl pid w)) = conn w \<or>
   item_step wl (conn w) (conn (world_of (add_to_wishlist wl pid w)))"
proof (cases "compared pid")
  case None
  then show ?thesis by (simp add: add_to_wishlist_def select_Wish_List_def)
next
  case (Some p)
  show ?thesis
  proof (cases "holds wl p (conn w)")
    case True
    with Some show ?thesis
      by (simp add: add_to_wishlist_def select_Wish_List_def holds_def split: list.splits)
  next
    case False
    have ins: "\<And>q db. insert_Wish_List wl pid q (conn w) = Inr db \<Longrightarrow> item_step wl (conn w) db"
      using False Some
      by (auto simp: insert_Wish_List_def split: option.splits if_splits
          dest!: stored_compared intro!: item_step.added)
    from False Some show ?thesis
      by (auto simp: add_to_wishlist_def select_Wish_List_def holds_def input_def Let_def
          split: list.splits option.splits sum.splits dest: ins)
  qed
qed

lemma add_item_by_id_step:
  "conn (world_of (add_item_by_id wl w)) = conn w \<or>
   item_step wl (conn w) (conn (world_of (add_item_by_id wl w)))"
proof (cases "stdin w")
  case Nil
  then show ?thesis by (simp add: add_item_by_id_def input_def)
next
  case (Cons l ls)
  show ?thesis
    using add_to_wishlist_step [of wl "PyStr (strip l)" "(print ''Enter the product ID to add (or type 'exit' to cancel): '' w)\<lparr>stdin := ls\<rparr>"] Cons
    by (simp add: add_item_by_id_def input_def Let_def)
qed


lemma add_item_by_name_step:
  "conn (world_of (add_item_by_name wl w)) = conn w \<or>
   item_step wl (conn w) (conn (world_of (add_item_by_name wl w)))"
proof (cases "stdin w")
  case Nil
  then show ?thesis by (simp add: add_item_by_name_def input_def)
next
  case (Cons l ls)
  define w1 where "w1 = (print ''Enter the product name to add (or type 'exit' to cancel): '' w)\<lparr>stdin := ls\<rparr>"
  have c1: "conn w1 = conn w" by (simp add: w1_def)
  have i: "input ''Enter the product name to add (or type 'exit' to cancel): '' w = Return l w1"
    using Cons by (simp add: input_def w1_def)
  show ?thesis
  proof (cases "lower (strip l) = ''exit''")
    case True
    with i c1 show ?thesis by (simp add: add_item_by_name_def)
  next
    case False
    note ne = this
    show ?thesis
    proof (cases "select_Products_ilike (''%'' @ strip l @ ''%'') (conn w1)")
      case Nil
      with i c1 ne show ?thesis by (simp add: add_item_by_name_def)
    next
      case (Cons m ms)
      obtain pid pname where m: "m = (pid, pname)" by (cases m)
      show ?thesis
      proof (cases ms)
        case Nil
        define w2 where "w2 = print (''Matched Product: '' @ pname @ '' (ID: '' @ str_int pid @ '')'') w1"
        have "add_item_by_name wl w = add_to_wishlist wl (PyInt pid) w2"
          using i ne Cons Nil m by (simp add: add_item_by_name_def w2_def)
        moreover have "conn w2 = conn w" by (simp add: w2_def c1)
        ultimately show ?thesis using add_to_wishlist_step [of wl "PyInt pid" w2] by simp
      next
        case (Cons m' ms')
        define w2 where "w2 = show_matches (m # m' # ms') w1"
        have c2: "conn w2 = conn w" by (simp add: w2_def c1)
        have e: "add_item_by_name wl w =
           (case input ''Enter the product ID of the desired match: '' w2 of
              Raise e w' \<Rightarrow> Raise e w'
            | Return l' w' \<Rightarrow> add_to_wishlist wl (PyStr (strip l')) w')"
          using i ne \<open>select_Products_ilike (''%'' @ strip l @ ''%'') (conn w1) = m # ms\<close> Cons m
          by (simp add: add_item_by_name_def w2_def)
        show ?thesis
        proof (cases "stdin w2")
          case Nil
          with e c2 show ?thesis by (simp add: input_def)
        next
          case (Cons l' ls')
          define w3 where "w3 = (print ''Enter the product ID of the desired match: '' w2)\<lparr>stdin := ls'\<rparr>"
          have "add_item_by_name wl w = add_to_wishlist wl (PyStr (strip l')) w3"
            using e Cons by (simp add: input_def w3_def)
          moreover have "conn w3 = conn w" by (simp add: w3_def c2)
          ultimately show ?thesis using add_to_wishlist_step [of wl "PyStr (strip l')" w3] by simp
        qed
      qed
    qed
  qed
qed

lemma delete_Wish_List_step:
  assumes "delete_Wish_List wl pid db = Inr db'"
  shows "item_step wl db db'"
proof (cases "compared pid")
  case None
  with assms show ?thesis by (simp add: delete_Wish_List_def)
next
  case (Some p)
  with assms have "db\<lparr>Wish_List :=
      filter (\<lambda>r. \<not> (wishlist_name r = wl \<and> product_id r = p)) (Wish_List db)\<rparr> = db'"
    by (simp only: delete_Wish_List_def option.case sum.inject)
  then show ?thesis using item_step.removed [of wl db p] by simp
qed

lemma update_number_step:
  assumes "update_number q wl pid db = Inr db'"
  shows "item_step wl db db'"
proof (cases "compared pid")
  case None
  with assms show ?thesis by (simp add: update_number_def)
next
  case (Some p)
  with assms have "db\<lparr>Wish_List :=
      map (\<lambda>r. if wishlist_name r = wl \<and> product_id r = p then r\<lparr>number := q\<rparr> else r)
        (Wish_List db)\<rparr> = db'"
    by (simp add: update_number_def split: if_splits)
  then show ?thesis using item_step.quantity [of wl db p q] by simp
qed

lemma update_owned_step:
  assumes "update_owned b wl pid db = Inr db'"
  shows "item_step wl db db'"
proof (cases "compared pid")
  case None
  with assms show ?thesis by (simp add: update_owned_def)
next
  case (Some p)
  with assms have "db\<lparr>Wish_List :=
      map (\<lambda>r. if wishlist_name r = wl \<and> product_id r = p then r\<lparr>owned := b\<rparr> else r)
        (Wish_List db)\<rparr> = db'"
    by (simp add: update_owned_def)
  then show ?thesis using item_step.ownership [of wl db p b] by simp
qed

lemma remove_item_step:
  "conn (world_of (remove_item wl w)) = conn w \<or>
   item_step wl (conn w) (conn (world_of (remove_item wl w)))"
  unfolding remove_item_def input_def Let_def
  by (auto split: list.splits sum.splits dest: delete_Wish_List_step)

lemma modify_quantity_step:
  "conn (world_of (modify_quantity wl w)) = conn w \<or>
   item_step wl (conn w) (conn (world_of (modify_quantity wl w)))"
  unfolding modify_quantity_def input_def Let_def
  by (auto split: list.splits sum.splits option.splits dest: update_number_step)

lemma modify_ownership_step:
  "conn (world_of (modify_ownership wl w)) = conn w \<or>
   item_step wl (conn w) (conn (world_of (modify_ownership wl w)))"
  unfolding modify_ownership_def input_def Let_def
  by (auto split: list.splits sum.splits dest: update_owned_step)

lemma change_category_conn [simp]: "conn (world_of (change_category cs w)) = conn w"
  unfolding change_category_def input_def Let_def
  by (auto simp: case_prod_unfold split: list.splits option.splits)

lemma product_browser_conn [simp]: "conn (world_of (product_browser cs c w)) = conn w"
proof (induction cs c w rule: product_browser.induct)
  case (1 cs c w0)
  show ?case
  proof (cases "input ''Enter your choice: '' (show_products cs c w0)")
    case (Raise e w)
    then show ?thesis
      by (subst product_browser.simps) (auto dest!: input_Raise)
  next
    case (Return l w)
    then have cw: "conn w = conn w0" by (auto dest!: input_Return)
    show ?thesis
    proof (cases "strip l = ''1''")
      case True
      show ?thesis
      proof (cases "change_category cs w")
        case (Raise e w1)
        then have "conn w1 = conn w" using change_category_conn [of cs w] by simp
        with Return True Raise cw show ?thesis
          by (subst product_browser.simps) simp
      next
        case r: (Return c' w1)
        then have "conn w1 = conn w" using change_category_conn [of cs w] by simp
        with "1.IH"(1) [OF Return refl True r] Return True r cw show ?thesis
          by (subst product_browser.simps) simp
      qed
    next
      case False
      note n1 = this
      show ?thesis
      proof (cases "strip l = ''2''")
        case True
        with Return n1 cw show ?thesis by (subst product_browser.simps) simp
      next
        case False
        with "1.IH"(2) [OF Return refl n1 False] Return n1 cw show ?thesis
          by (subst product_browser.simps) simp
      qed
    qed
  qed
qed

lemma get_product_details_conn [simp]: "conn (world_of (get_product_details w)) = conn w"
  by (simp add: get_product_details_def)

lemma world_of_continue [simp]: "world_of (continue r) = world_of r"
  by (simp add: continue_def split: result.splits)

lemma item_menu_step:
  "conn (world_of (item_menu wl choice w)) = conn w \<or>
   item_step wl (conn w) (conn (world_of (item_menu wl choice w)))"
  unfolding item_menu_def
  using add_item_by_id_step [of wl w] add_item_by_name_step [of wl w] remove_item_step [of wl w]
    modify_quantity_step [of wl w] modify_ownership_step [of wl w]
  by simp

lemma viewList_loop_steps:
  "(item_step wl)\<^sup>*\<^sup>* (conn w) (conn (world_of (viewList_loop wl w)))"
proof (induction wl w rule: viewList_loop.induct)
  case (1 wl w0)
  show ?case
  proof (cases "input ''Enter your choice: '' (show_items wl w0)")
    case (Raise e w)
    then show ?thesis by (subst viewList_loop.simps) (auto dest!: input_Raise)
  next
    case (Return choice w)
    then have cw: "conn w = conn w0" by (auto dest!: input_Return)
    have st: "(item_step wl)\<^sup>*\<^sup>* (conn w0) (conn (world_of (item_menu wl choice w)))"
      using item_menu_step [of wl choice w] cw by auto
    show ?thesis
    proof (cases "item_menu wl choice w")
      case (Raise e w1)
      with Return st show ?thesis by (subst viewList_loop.simps) simp
    next
      case r: (Return f w1)
      show ?thesis
      proof (cases f)
        case Break
        with Return r st show ?thesis by (subst viewList_loop.simps) simp
      next
        case Continue
        from "1.IH" [OF Return r Continue]
        have "(item_step wl)\<^sup>*\<^sup>* (conn w1) (conn (world_of (viewList_loop wl w1)))" .
        moreover from st r have "(item_step wl)\<^sup>*\<^sup>* (conn w0) (conn w1)" by simp
        ultimately have "(item_step wl)\<^sup>*\<^sup>* (conn w0) (conn (world_of (viewList_loop wl w1)))"
          by (rule rtranclp_trans [rotated])
        with Return r Continue show ?thesis by (subst viewList_loop.simps) simp
      qed
    qed
  qed
qed


text \<open>
  \<open>app_step\<close> adds the two changes of the registry: a run of the main menu is a
  sequence of such steps.
\<close>

inductive app_step :: "store \<Rightarrow> store \<Rightarrow> bool" where
  created: "text_param name \<Longrightarrow> lower (strip name) \<noteq> ''exit'' \<Longrightarrow>
     app_step db (db\<lparr>List_Tracker := List_Tracker db @ [name]\<rparr>)"
| deleted: "filter (\<lambda>r. wishlist_name r = name) (Wish_List db) = [] \<Longrightarrow>
     app_step db (db\<lparr>List_Tracker := filter (\<lambda>n. n \<noteq> name) (List_Tracker db)\<rparr>)"
| edited: "wl \<in> set (List_Tracker db) \<Longrightarrow> item_step wl db db' \<Longrightarrow> app_step db db'"

lemma item_step_List_Tracker: "item_step wl db db' \<Longrightarrow> List_Tracker db' = List_Tracker db"
  by (induction rule: item_step.induct) simp_all

lemma item_steps_List_Tracker:
  "(item_step wl)\<^sup>*\<^sup>* db db' \<Longrightarrow> List_Tracker db' = List_Tracker db"
  by (induction rule: rtranclp_induct) (simp_all add: item_step_List_Tracker)

lemma item_steps_app_steps:
  assumes "(item_step wl)\<^sup>*\<^sup>* db db'" and "wl \<in> set (List_Tracker db)"
  shows "app_step\<^sup>*\<^sup>* db db'"
  using assms
proof (induction rule: rtranclp_induct)
  case base
  show ?case by simp
next
  case (step y z)
  then have "wl \<in> set (List_Tracker y)" by (simp add: item_steps_List_Tracker)
  with step have "app_step y z" by (auto intro: app_step.edited)
  with step show ?case by auto
qed

lemma viewList_steps:
  "conn (world_of (viewList wl w)) = conn w \<or>
   (wl \<in> set (List_Tracker (conn w)) \<and>
    (item_step wl)\<^sup>*\<^sup>* (conn w) (conn (world_of (viewList wl w))))"
  using viewList_loop_steps [of wl w] by (simp add: viewList_def)

lemma createList_step:
  "conn (world_of (createList name w)) = conn w \<or>
   app_step (conn w) (conn (world_of (createList name w)))"
  using app_step.created [of name "conn w"]
  by (auto simp: createList_def select_List_Tracker_def insert_List_Tracker_def
      split: sum.splits list.splits if_splits)

lemma deleteList_step:
  "conn (world_of (deleteList name w)) = conn w \<or>
   app_step (conn w) (conn (world_of (deleteList name w)))"
  using app_step.deleted [of name "conn w"]
  by (auto simp: deleteList_def delete_List_Tracker_def Let_def
      split: sum.splits if_splits)

lemma createList_steps:
  "conn w = db \<Longrightarrow> app_step\<^sup>*\<^sup>* db (conn (world_of (createList name w)))"
  using createList_step [of name w] by auto

lemma deleteList_steps:
  "conn w = db \<Longrightarrow> app_step\<^sup>*\<^sup>* db (conn (world_of (deleteList name w)))"
  using deleteList_step [of name w] by auto

lemma add_wishlist_steps: "app_step\<^sup>*\<^sup>* (conn w) (conn (world_of (add_wishlist w)))"
  unfolding add_wishlist_def input_def Let_def
  by (auto split: list.splits intro!: createList_steps)

lemma remove_wishlist_steps: "app_step\<^sup>*\<^sup>* (conn w) (conn (world_of (remove_wishlist w)))"
  unfolding remove_wishlist_def input_def Let_def
  by (auto split: list.splits intro!: deleteList_steps)

lemma view_wishlist_steps: "app_step\<^sup>*\<^sup>* (conn w) (conn (world_of (view_wishlist w)))"
proof (cases "stdin w")
  case Nil
  then show ?thesis by (simp add: view_wishlist_def input_def)
next
  case (Cons l ls)
  define w1 where "w1 = (print ''Enter the wishlist name to view (or type 'exit' to cancel): '' w)\<lparr>stdin := ls\<rparr>"
  have c: "conn w1 = conn w" by (simp add: w1_def)
  have "app_step\<^sup>*\<^sup>* (conn w1) (conn (world_of (viewList (strip l) w1)))"
    using viewList_steps [of "strip l" w1] by (auto intro: item_steps_app_steps)
  with Cons c show ?thesis
    by (simp add: view_wishlist_def input_def Let_def w1_def)
qed

lemma main_choice_steps: "app_step\<^sup>*\<^sup>* (conn w) (conn (world_of (main_choice choice w)))"
  unfolding main_choice_def
  using add_wishlist_steps [of w] remove_wishlist_steps [of w] view_wishlist_steps [of w]
  by simp

lemma main_menu_steps: "app_step\<^sup>*\<^sup>* (conn w) (conn (world_of (main_menu w)))"
proof (induction w rule: main_menu.induct)
  case (1 w0)
  show ?case
  proof (cases "input ''Enter your choice: '' (show_main_menu w0)")
    case (Raise e w)
    then show ?thesis by (subst main_menu.simps) (auto dest!: input_Raise)
  next
    case (Return choice w)
    then have cw: "conn w = conn w0" by (auto dest!: input_Return)
    have st: "app_step\<^sup>*\<^sup>* (conn w0) (conn (world_of (main_choice choice w)))"
      using main_choice_steps [of w choice] cw by simp
    show ?thesis
    proof (cases "main_choice choice w")
      case (Raise e w1)
      with Return st show ?thesis by (subst main_menu.simps) simp
    next
      case r: (Return f w1)
      show ?thesis
      proof (cases f)
        case Break
        with Return r st show ?thesis by (subst main_menu.simps) simp
      next
        case Continue
        from "1.IH" [OF Return r Continue]
        have "app_step\<^sup>*\<^sup>* (conn w1) (conn (world_of (main_menu w1)))" .
        moreover from st r have "app_step\<^sup>*\<^sup>* (conn w0) (conn w1)" by simp
        ultimately have "app_step\<^sup>*\<^sup>* (conn w0) (conn (world_of (main_menu w1)))"
          by (rule rtranclp_trans [rotated])
        with Return r Continue show ?thesis by (subst main_menu.simps) simp
      qed
    qed
  qed
qed

section \<open>Invariants\<close>


definition item_key :: "wish \<Rightarrow> string \<times> int" where
  "item_key r = (wishlist_name r, product_id r)"

definition distinct_items :: "store \<Rightarrow> bool" where
  "distinct_items db = distinct (map item_key (Wish_List db))"

lemma not_holds_key: "\<not> holds wl p db \<Longrightarrow> (wl, p) \<notin> item_key ` set (Wish_List db)"
  by (auto simp: holds_def filter_empty_conv item_key_def)

lemma item_step_distinct:
  "item_step wl db db' \<Longrightarrow> distinct_items db \<Longrightarrow> distinct_items db'"
proof (induction rule: item_step.induct)
  case (added p db q)
  then show ?case using not_holds_key [of wl p db]
    by (simp add: distinct_items_def item_key_def)
next
  case (removed db p)
  then show ?case by (simp add: distinct_items_def distinct_map_filter)
next
  case (quantity db p q)
  have "map item_key (map (\<lambda>r. if wishlist_name r = wl \<and> product_id r = p then r\<lparr>number := q\<rparr> else r)
          (Wish_List db)) = map item_key (Wish_List db)"
    by (simp add: item_key_def)
  with quantity show ?case by (simp add: distinct_items_def del: map_map)
next
  case (ownership db p b)
  have "map item_key (map (\<lambda>r. if wishlist_name r = wl \<and> product_id r = p then r\<lparr>owned := b\<rparr> else r)
          (Wish_List db)) = map item_key (Wish_List db)"
    by (simp add: item_key_def)
  with ownership show ?case by (simp add: distinct_items_def del: map_map)
qed

lemma app_step_distinct: "app_step db db' \<Longrightarrow> distinct_items db \<Longrightarrow> distinct_items db'"
  by (induction rule: app_step.induct) (simp_all add: distinct_items_def item_step_distinct [unfolded distinct_items_def])

lemma app_steps_distinct: "app_step\<^sup>*\<^sup>* db db' \<Longrightarrow> distinct_items db \<Longrightarrow> distinct_items db'"
  by (induction rule: rtranclp_induct) (auto intro: app_step_distinct)


definition registered_names :: "store \<Rightarrow> bool" where
  "registered_names db =
     list_all (\<lambda>n. text_param n \<and> lower (strip n) \<noteq> ''exit'') (List_Tracker db)"


lemma item_step_Products: "item_step wl db db' \<Longrightarrow> Products db' = Products db"
  by (induction rule: item_step.induct) simp_all




lemma app_step_registered_names:
  "app_step db db' \<Longrightarrow> registered_names db \<Longrightarrow> registered_names db'"
proof (induction rule: app_step.induct)
  case (created name db)
  then show ?case by (simp add: registered_names_def)
next
  case (deleted name db)
  then show ?case by (auto simp: registered_names_def list_all_iff)
next
  case (edited wl db db')
  then show ?case by (simp add: registered_names_def item_step_List_Tracker)
qed



lemma app_steps_registered_names:
  "app_step\<^sup>*\<^sup>* db db' \<Longrightarrow> registered_names db \<Longrightarrow> registered_names db'"
  by (induction rule: rtranclp_induct) (auto intro: app_step_registered_names)


section \<open>A branch on given input\<close>

text \<open>
  \<open>after_input p w\<close> is the state once \<open>input(p)\<close> has written its prompt and taken
  the first line of the input. The lemmas of this section run each branch of the item
  editor on input whose first lines are given.
\<close>

definition after_input :: "string \<Rightarrow> world \<Rightarrow> world" where
  "after_input prompt w = (print prompt w)\<lparr>stdin := tl (stdin w)\<rparr>"

lemma after_input_simps [simp]:
  "conn (after_input p w) = conn w"
  "stdin (after_input p w) = tl (stdin w)"
  "stdout (after_input p w) = stdout w @ [p]"
  by (simp_all add: after_input_def print_def)

lemma stdout_print [simp]: "stdout (print s w) = stdout w @ [s]"
  by (simp add: print_def)

lemma input_line: "stdin w = l # rest \<Longrightarrow> input p w = Return l (after_input p w)"
  by (simp add: input_def after_input_def)

lemma input_eof: "stdin w = [] \<Longrightarrow> input p w = Raise EOFError (print p w)"
  by (simp add: input_def)

lemma int4in_first:
  "int4in (c # cs) = Some p \<Longrightarrow> c = CHR ''-'' \<or> c = CHR ''+'' \<or> isdigit c"
  by (auto simp: int4in_def Let_def split: list.splits if_splits option.splits)

lemma lower_first_not_e: "c = CHR ''-'' \<or> c = CHR ''+'' \<or> isdigit c \<Longrightarrow> lower_char c \<noteq> CHR ''e''"
  by (auto simp: lower_char_def isdigit_def Let_def)

lemma int4in_not_exit: "int4in s = Some p \<Longrightarrow> lower s \<noteq> ''exit''"
proof (cases s)
  case Nil
  then show ?thesis by (simp add: lower_def)
next
  case (Cons c cs)
  assume "int4in s = Some p"
  with Cons have "lower_char c \<noteq> CHR ''e''" by (auto dest!: int4in_first lower_first_not_e)
  then show ?thesis using Cons by (auto simp: lower_def)
qed

lemma strip_strip [simp]: "strip (strip s) = strip s"
proof -
  define t where "t = dropWhile isspace s"
  define u where "u = dropWhile isspace (rev t)"
  have 1: "dropWhile isspace (rev u) = rev u"
  proof (cases "u = []")
    case True
    then show ?thesis by simp
  next
    case False
    obtain ys where "rev t = ys @ u"
      unfolding u_def by (metis takeWhile_dropWhile_id)
    then have t: "t = rev u @ rev ys" by (metis rev_append rev_rev_ident)
    with False have "t \<noteq> []" by simp
    then have "\<not> isspace (hd t)" unfolding t_def by (rule hd_dropWhile)
    moreover from t False have "hd t = hd (rev u)" by (simp add: hd_append)
    ultimately have "\<not> isspace (hd (rev u))" by simp
    with False show ?thesis by (cases "rev u") auto
  qed
  have 2: "dropWhile isspace u = u" unfolding u_def by (metis dropWhile_idem)
  have "strip (strip s) = rev (dropWhile isspace (rev (dropWhile isspace (rev u))))"
    by (simp add: strip_def t_def u_def)
  also have "\<dots> = rev u" using 1 2 by simp
  also have "\<dots> = strip s" by (simp add: strip_def t_def u_def)
  finally show ?thesis .
qed

lemma py_int_first:
  "py_int s = Some q \<Longrightarrow> strip s \<noteq> [] \<and>
     (hd (strip s) = CHR ''-'' \<or> hd (strip s) = CHR ''+'' \<or> isdigit (hd (strip s)))"
  by (auto simp: py_int_def Let_def split: list.splits if_splits)

lemma py_int_not_exit: "py_int s = Some q \<Longrightarrow> lower (strip s) \<noteq> ''exit''"
proof -
  assume "py_int s = Some q"
  then obtain c cs where "strip s = c # cs" "c = CHR ''-'' \<or> c = CHR ''+'' \<or> isdigit c"
    by (cases "strip s") (auto dest!: py_int_first)
  then show ?thesis by (auto simp: lower_def dest!: lower_first_not_e)
qed


lemma holds_select:
  "compared pid = Some p \<Longrightarrow> holds wl p db \<Longrightarrow>
     \<exists>r rs. select_Wish_List wl pid db = Inr (r # rs)"
  by (cases "filter (\<lambda>r. wishlist_name r = wl \<and> product_id r = p) (Wish_List db)")
    (auto simp: select_Wish_List_def holds_def)

lemma not_holds_select:
  "compared pid = Some p \<Longrightarrow> \<not> holds wl p db \<Longrightarrow> select_Wish_List wl pid db = Inr []"
  by (simp add: select_Wish_List_def holds_def)

lemma add_to_wishlist_present:
  assumes "compared pid = Some p" and "holds wl p (conn w)"
  shows "add_to_wishlist wl pid w =
           Return () (print ''You already have this product in your wishlist.'' w)"
  using holds_select [OF assms] by (auto simp: add_to_wishlist_def)

lemma add_to_wishlist_cancel:
  assumes "compared pid = Some p" and "\<not> holds wl p (conn w)"
    and "stdin w = l # rest" and "lower (strip l) = ''exit''"
  shows "add_to_wishlist wl pid w =
           Return () (print ''Operation canceled.''
             (after_input ''Enter the quantity (or type 'exit' to cancel): '' w))"
  using not_holds_select [OF assms(1,2)] assms(4)
  by (simp add: add_to_wishlist_def input_line [OF assms(3)])

lemma add_to_wishlist_invalid:
  assumes "compared pid = Some p" and "\<not> holds wl p (conn w)"
    and "stdin w = l # rest" and "lower (strip l) \<noteq> ''exit''" and "py_int (strip l) = None"
  shows "add_to_wishlist wl pid w =
           Return () (print ''Invalid quantity. Please enter a number.''
             (after_input ''Enter the quantity (or type 'exit' to cancel): '' w))"
  using not_holds_select [OF assms(1,2)] assms(4,5)
  by (simp add: add_to_wishlist_def input_line [OF assms(3)])

lemma add_to_wishlist_insert:
  assumes "stored pid = Some p" and "\<not> holds wl p (conn w)"
    and "stdin w = l # rest" and "py_int (strip l) = Some q" and "in_int4 q"
    and "wl \<in> set (List_Tracker (conn w))" and "known_product p (conn w)"
  shows "add_to_wishlist wl pid w =
           Return () (print ''Item added successfully.''
             ((after_input ''Enter the quantity (or type 'exit' to cancel): '' w)
                \<lparr>conn := (conn w)\<lparr>Wish_List := Wish_List (conn w) @
                   [\<lparr>wishlist_name = wl, product_id = p, number = q, owned = False\<rparr>]\<rparr>\<rparr>))"
proof -
  have c: "compared pid = Some p" using assms(1) by (rule stored_compared)
  have ne: "lower (strip l) \<noteq> ''exit''"
    using py_int_not_exit [OF assms(4)] by simp
  show ?thesis
    using not_holds_select [OF c assms(2)] ne assms(1,4,5,6,7)
    by (simp add: add_to_wishlist_def input_line [OF assms(3)] insert_Wish_List_def)
qed


lemma add_item_by_id_cancel:
  assumes "stdin w = l # rest" and "lower (strip l) = ''exit''"
  shows "add_item_by_id wl w =
           Return () (print ''Operation canceled.''
             (after_input ''Enter the product ID to add (or type 'exit' to cancel): '' w))"
  using assms(2) by (simp add: add_item_by_id_def input_line [OF assms(1)])

lemma add_item_by_id_go:
  assumes "stdin w = l # rest" and "lower (strip l) \<noteq> ''exit''"
  shows "add_item_by_id wl w =
           add_to_wishlist wl (PyStr (strip l))
             (after_input ''Enter the product ID to add (or type 'exit' to cancel): '' w)"
  using assms(2) by (simp add: add_item_by_id_def input_line [OF assms(1)])

lemma add_item_by_name_cancel:
  assumes "stdin w = l # rest" and "lower (strip l) = ''exit''"
  shows "add_item_by_name wl w =
           Return () (print ''Operation canceled.''
             (after_input ''Enter the product name to add (or type 'exit' to cancel): '' w))"
  using assms(2) by (simp add: add_item_by_name_def input_line [OF assms(1)])


lemma add_item_by_name_one:
  assumes "stdin w = l # rest" and "lower (strip l) \<noteq> ''exit''"
    and "select_Products_ilike (''%'' @ strip l @ ''%'') (conn w) = [(p, pname)]"
  shows "add_item_by_name wl w =
           add_to_wishlist wl (PyInt p)
             (print (''Matched Product: '' @ pname @ '' (ID: '' @ str_int p @ '')'')
               (after_input ''Enter the product name to add (or type 'exit' to cancel): '' w))"
  using assms(2,3) by (simp add: add_item_by_name_def input_line [OF assms(1)])

lemma add_item_by_name_many:
  assumes "stdin w = l # l' # rest" and "lower (strip l) \<noteq> ''exit''"
    and "select_Products_ilike (''%'' @ strip l @ ''%'') (conn w) = m # m' # ms"
  shows "add_item_by_name wl w =
           add_to_wishlist wl (PyStr (strip l'))
             (after_input ''Enter the product ID of the desired match: ''
               (show_matches (m # m' # ms)
                 (after_input ''Enter the product name to add (or type 'exit' to cancel): '' w)))"
proof -
  let ?w1 = "after_input ''Enter the product name to add (or type 'exit' to cancel): '' w"
  have "stdin (show_matches (m # m' # ms) ?w1) = l' # rest" using assms(1) by simp
  from input_line [OF this] assms(2,3) show ?thesis
    by (simp add: add_item_by_name_def input_line [OF assms(1)])
qed


lemma remove_item_cancel:
  assumes "stdin w = l # rest" and "lower (strip l) = ''exit''"
  shows "remove_item wl w =
           Return () (print ''Operation canceled.''
             (after_input ''Enter the product ID to remove (or type 'exit' to cancel): '' w))"
  using assms(2) by (simp add: remove_item_def input_line [OF assms(1)])

lemma remove_item_absent:
  assumes "stdin w = l # rest" and "int4in (strip l) = Some p" and "\<not> holds wl p (conn w)"
  shows "remove_item wl w =
           Return () (print (''Product ID '' @ strip l @ '' does not exist in the wishlist ''
                             @ quoted wl @ ''.'')
             (after_input ''Enter the product ID to remove (or type 'exit' to cancel): '' w))"
proof -
  have "compared (PyStr (strip l)) = Some p" using assms(2) by (simp add: compared_def)
  from not_holds_select [OF this, of wl "conn w"] assms(3) int4in_not_exit [OF assms(2)]
  show ?thesis by (simp add: remove_item_def input_line [OF assms(1)])
qed

lemma remove_item_present:
  assumes "stdin w = l # rest" and "int4in (strip l) = Some p" and "holds wl p (conn w)"
  shows "remove_item wl w =
           Return () (print ''Item removed successfully.''
             ((after_input ''Enter the product ID to remove (or type 'exit' to cancel): '' w)
                \<lparr>conn := (conn w)\<lparr>Wish_List :=
                   filter (\<lambda>r. \<not> (wishlist_name r = wl \<and> product_id r = p))
                     (Wish_List (conn w))\<rparr>\<rparr>))"
proof -
  have c: "compared (PyStr (strip l)) = Some p" using assms(2) by (simp add: compared_def)
  from holds_select [OF c assms(3)] obtain r rs
    where "select_Wish_List wl (PyStr (strip l)) (conn w) = Inr (r # rs)" by blast
  with c int4in_not_exit [OF assms(2)]
  show ?thesis by (simp add: remove_item_def input_line [OF assms(1)] delete_Wish_List_def)
qed

lemma modify_quantity_cancel:
  assumes "stdin w = l # rest" and "lower (strip l) = ''exit''"
  shows "modify_quantity wl w =
           Return () (print ''Operation canceled.''
             (after_input ''Enter the product ID to modify (or type 'exit' to cancel): '' w))"
  using assms(2) by (simp add: modify_quantity_def input_line [OF assms(1)])

lemma modify_quantity_absent:
  assumes "stdin w = l # rest" and "int4in (strip l) = Some p" and "\<not> holds wl p (conn w)"
  shows "modify_quantity wl w =
           Return () (print (''Product ID '' @ strip l @ '' does not exist in the wishlist ''
                             @ quoted wl @ ''.'')
             (after_input ''Enter the product ID to modify (or type 'exit' to cancel): '' w))"
proof -
  have "compared (PyStr (strip l)) = Some p" using assms(2) by (simp add: compared_def)
  from not_holds_select [OF this, of wl "conn w"] assms(3) int4in_not_exit [OF assms(2)]
  show ?thesis by (simp add: modify_quantity_def input_line [OF assms(1)])
qed

lemma modify_quantity_go:
  assumes "stdin w = l # l' # rest" and "int4in (strip l) = Some p" and "holds wl p (conn w)"
  shows "modify_quantity wl w =
           (let w' = after_input ''Enter the new quantity (or type 'exit' to cancel): ''
                       (after_input ''Enter the product ID to modify (or type 'exit' to cancel): '' w)
            in if lower (strip l') = ''exit'' then Return () (print ''Operation canceled.'' w')
               else case py_int (strip l') of
                      None \<Rightarrow> Return () (print ''Invalid quantity. Please enter a number.'' w')
                    | Some q \<Rightarrow>
                        if in_int4 q
                        then Return () (print ''Quantity updated successfully.''
                               (w'\<lparr>conn := (conn w)\<lparr>Wish_List :=
                                   map (\<lambda>r. if wishlist_name r = wl \<and> product_id r = p
                                             then r\<lparr>number := q\<rparr> else r)
                                     (Wish_List (conn w))\<rparr>\<rparr>))
                        else Raise DataError w')"
proof -
  let ?w1 = "after_input ''Enter the product ID to modify (or type 'exit' to cancel): '' w"
  have c: "compared (PyStr (strip l)) = Some p" using assms(2) by (simp add: compared_def)
  from holds_select [OF c assms(3)] obtain r rs
    where s: "select_Wish_List wl (PyStr (strip l)) (conn w) = Inr (r # rs)" by blast
  have "stdin ?w1 = l' # rest" using assms(1) by simp
  from input_line [OF this] s c int4in_not_exit [OF assms(2)]
  show ?thesis
    by (simp add: modify_quantity_def input_line [OF assms(1)] update_number_def Let_def
        split: option.splits)
qed

lemma modify_ownership_cancel:
  assumes "stdin w = l # rest" and "lower (strip l) = ''exit''"
  shows "modify_ownership wl w =
           Return () (print ''Operation canceled.''
             (after_input ''Enter the product ID to modify ownership status (or type 'exit' to cancel): '' w))"
  using assms(2) by (simp add: modify_ownership_def input_line [OF assms(1)])

lemma modify_ownership_go:
  assumes "stdin w = l # l' # rest" and "lower (strip l) \<noteq> ''exit''"
  shows "modify_ownership wl w =
           (let w' = after_input ''Do you own this item? (yes/no or type 'exit' to cancel): ''
                       (after_input ''Enter the product ID to modify ownership status (or type 'exit' to cancel): '' w)
            in if lower (strip l') = ''exit'' then Return () (print ''Operation canceled.'' w')
               else case int4in (strip l) of
                      None \<Rightarrow> Raise DataError w'
                    | Some p \<Rightarrow>
                        Return () (print ''Ownership status updated successfully.''
                          (w'\<lparr>conn := (conn w)\<lparr>Wish_List :=
                              map (\<lambda>r. if wishlist_name r = wl \<and> product_id r = p
                                        then r\<lparr>owned := (lower (strip l') = ''yes'')\<rparr> else r)
                                (Wish_List (conn w))\<rparr>\<rparr>)))"
proof -
  let ?w1 = "after_input ''Enter the product ID to modify ownership status (or type 'exit' to cancel): '' w"
  have "stdin ?w1 = l' # rest" using assms(1) by simp
  from input_line [OF this] assms(2)
  show ?thesis
    by (simp add: modify_ownership_def input_line [OF assms(1)] update_owned_def Let_def
        compared_def split: option.splits)
qed


section \<open>Properties\<close>

subsection \<open>Observations\<close>

text \<open>
  \<open>answered msg n w r\<close>: the branch returned to its menu after reading \<open>n\<close> lines, the
  store is as it was in \<open>w\<close>, and \<open>msg\<close> is the last line written.
  \<open>finished msg n db w r\<close> is the same with \<open>db\<close> for the store at the end.
\<close>

definition answered :: "string \<Rightarrow> nat \<Rightarrow> world \<Rightarrow> unit result \<Rightarrow> bool" where
  "answered msg n w r =
     (returned r \<and> conn (world_of r) = conn w \<and> stdin (world_of r) = drop n (stdin w) \<and>
      stdout (world_of r) \<noteq> [] \<and> last (stdout (world_of r)) = msg)"

lemma answered_Return:
  "answered msg n w (Return () w') \<longleftrightarrow>
     conn w' = conn w \<and> stdin w' = drop n (stdin w) \<and> stdout w' \<noteq> [] \<and> last (stdout w') = msg"
  by (simp add: answered_def)

definition finished :: "string \<Rightarrow> nat \<Rightarrow> store \<Rightarrow> world \<Rightarrow> unit result \<Rightarrow> bool" where
  "finished msg n db w r =
     (returned r \<and> conn (world_of r) = db \<and> stdin (world_of r) = drop n (stdin w) \<and>
      stdout (world_of r) \<noteq> [] \<and> last (stdout (world_of r)) = msg)"

lemma finished_Return:
  "finished msg n db w (Return () w') \<longleftrightarrow>
     conn w' = db \<and> stdin w' = drop n (stdin w) \<and> stdout w' \<noteq> [] \<and> last (stdout w') = msg"
  by (simp add: finished_def)

text \<open>
  \<open>quantities_positive\<close> is the property of the specification that every stored
  quantity is positive. \<open>set_owned flag wl p db\<close> is the store after the update of
  Modify Ownership Status: the rows of wishlist \<open>wl\<close> and product \<open>p\<close> get the flag,
  every other row and every other column stay.
\<close>

definition quantities_positive :: "store \<Rightarrow> bool" where
  "quantities_positive db = list_all (\<lambda>r. 0 < number r) (Wish_List db)"

definition set_owned :: "bool \<Rightarrow> string \<Rightarrow> int \<Rightarrow> store \<Rightarrow> store" where
  "set_owned flag wl p db =
     db\<lparr>Wish_List :=
          map (\<lambda>r. if wishlist_name r = wl \<and> product_id r = p then r\<lparr>owned := flag\<rparr> else r)
            (Wish_List db)\<rparr>"



subsection \<open>Stores of the examples\<close>

definition registry_road :: world where
  "registry_road =
     \<lparr>conn = \<lparr>List_Tracker = [''Road'', ''Gravel''], Categories = [], Products = [],
              Wish_List = []\<rparr>,
      stdin = [], stdout = []\<rparr>"

definition road_shop :: world where
  "road_shop =
     \<lparr>conn = \<lparr>List_Tracker = [''Road''], Categories = [(1, ''Gear'')],
              Products = [(5, ''Helmet'', 1)], Wish_List = []\<rparr>,
      stdin = [], stdout = []\<rparr>"

definition road_item :: world where
  "road_item =
     \<lparr>conn = \<lparr>List_Tracker = [''Road''], Categories = [(1, ''Gear'')],
              Products = [(5, ''Helmet'', 1)],
              Wish_List = [\<lparr>wishlist_name = ''Road'', product_id = 5, number = 2, owned = False\<rparr>]\<rparr>,
      stdin = [], stdout = []\<rparr>"

definition bike_shop :: world where
  "bike_shop =
     \<lparr>conn = \<lparr>List_Tracker = [''Road''], Categories = [(1, ''Gear''), (2, ''Bikes'')],
              Products = [(5, ''Helmet'', 1), (6, ''Road Bike'', 2), (7, ''Gravel Bike'', 2)],
              Wish_List = [\<lparr>wishlist_name = ''Road'', product_id = 5, number = 2, owned = False\<rparr>,
                           \<lparr>wishlist_name = ''Road'', product_id = 6, number = 1, owned = False\<rparr>]\<rparr>,
      stdin = [], stdout = []\<rparr>"

definition gravel_item :: world where
  "gravel_item =
     bike_shop\<lparr>conn := (conn bike_shop)\<lparr>Wish_List :=
        [\<lparr>wishlist_name = ''Road'', product_id = 7, number = 1, owned = False\<rparr>]\<rparr>\<rparr>"

text \<open>Evaluation of the text functions on the lines typed in the examples.\<close>

lemma eq_char_of_iff: "(c = char_of (n::nat)) = (take_bit 8 n = of_char c)"
  using char_of_eq_iff [of n c] by auto

lemmas text_defs = strip_def isspace_def lower_def lower_char_def isdigit_def digit_value_def
  int4in_def py_int_def in_int4_def Let_def char_of_eq_iff eq_char_of_iff


lemma like_examples:
  "select_Products_ilike (''%'' @ strip ''helm'' @ ''%'') (conn bike_shop) = [(5, ''Helmet'')]"
  "select_Products_ilike (''%'' @ strip ''BIKE'' @ ''%'') (conn bike_shop)
     = [(6, ''Road Bike''), (7, ''Gravel Bike'')]"
  by (simp_all add: select_Products_ilike_def ilike_def bike_shop_def text_defs)

lemma like_gravel:
  "select_Products_ilike (''%'' @ strip ''gravel'' @ ''%'') (conn bike_shop) = [(7, ''Gravel Bike'')]"
  by (simp add: select_Products_ilike_def ilike_def bike_shop_def text_defs)

subsection \<open>References between the tables\<close>






subsection \<open>One row for a wishlist and a product\<close>

text \<open>
  C2: a run of the whole program (\<open>main_menu\<close>, on any input, however it ends) never
  leads from a store without two rows for the same wishlist and product to a store
  with two. When the wishlist already has a row for the product, Add Item by ID (the
  typed ID read as an integer), Add Item by Name with one match, and Add Item by Name
  with several matches and the ID then chosen, each answer that the product is already
  in the wishlist, before any quantity is asked and with the store as it was.
\<close>

theorem no_duplicate_items:
  "(distinct_items (conn w) \<longrightarrow> distinct_items (conn (world_of (main_menu w)))) \<and>
   (holds wl p (conn w1) \<and> stdin w1 = l1 # rest1 \<and> int4in (strip l1) = Some p \<longrightarrow>
      answered ''You already have this product in your wishlist.'' 1 w1
        (add_item_by_id wl w1)) \<and>
   (holds wl p (conn w2) \<and> stdin w2 = l2 # rest2 \<and> lower (strip l2) \<noteq> ''exit'' \<and>
    select_Products_ilike (''%'' @ strip l2 @ ''%'') (conn w2) = [(p, pname)] \<longrightarrow>
      answered ''You already have this product in your wishlist.'' 1 w2
        (add_item_by_name wl w2)) \<and>
   (holds wl p (conn w3) \<and> stdin w3 = l3 # l4 # rest3 \<and> lower (strip l3) \<noteq> ''exit'' \<and>
    select_Products_ilike (''%'' @ strip l3 @ ''%'') (conn w3) = m # m' # ms \<and>
    int4in (strip l4) = Some p \<longrightarrow>
      answered ''You already have this product in your wishlist.'' 2 w3
        (add_item_by_name wl w3))"
proof (intro conjI impI)
  assume "distinct_items (conn w)"
  with main_menu_steps [of w] show "distinct_items (conn (world_of (main_menu w)))"
    by (rule app_steps_distinct)
next
  assume a: "holds wl p (conn w1) \<and> stdin w1 = l1 # rest1 \<and> int4in (strip l1) = Some p"
  then have s: "stdin w1 = l1 # rest1" and i: "int4in (strip l1) = Some p" by simp_all
  have c: "compared (PyStr (strip l1)) = Some p" using i by (simp add: compared_def)
  show "answered ''You already have this product in your wishlist.'' 1 w1 (add_item_by_id wl w1)"
    unfolding add_item_by_id_go [OF s int4in_not_exit [OF i]]
    using a s by (subst add_to_wishlist_present [OF c]) (simp_all add: answered_Return)
next
  assume a: "holds wl p (conn w2) \<and> stdin w2 = l2 # rest2 \<and> lower (strip l2) \<noteq> ''exit'' \<and>
    select_Products_ilike (''%'' @ strip l2 @ ''%'') (conn w2) = [(p, pname)]"
  then have s: "stdin w2 = l2 # rest2" and n: "lower (strip l2) \<noteq> ''exit''"
    and m: "select_Products_ilike (''%'' @ strip l2 @ ''%'') (conn w2) = [(p, pname)]" by simp_all
  have c: "compared (PyInt p) = Some p" by (simp add: compared_def)
  show "answered ''You already have this product in your wishlist.'' 1 w2 (add_item_by_name wl w2)"
    unfolding add_item_by_name_one [OF s n m]
    using a s by (subst add_to_wishlist_present [OF c]) (simp_all add: answered_Return)
next
  assume a: "holds wl p (conn w3) \<and> stdin w3 = l3 # l4 # rest3 \<and> lower (strip l3) \<noteq> ''exit'' \<and>
    select_Products_ilike (''%'' @ strip l3 @ ''%'') (conn w3) = m # m' # ms \<and>
    int4in (strip l4) = Some p"
  then have s: "stdin w3 = l3 # l4 # rest3" and n: "lower (strip l3) \<noteq> ''exit''"
    and m: "select_Products_ilike (''%'' @ strip l3 @ ''%'') (conn w3) = m # m' # ms"
    and i: "int4in (strip l4) = Some p" by simp_all
  have c: "compared (PyStr (strip l4)) = Some p" using i by (simp add: compared_def)
  show "answered ''You already have this product in your wishlist.'' 2 w3 (add_item_by_name wl w3)"
    unfolding add_item_by_name_many [OF s n m]
    using a s by (subst add_to_wishlist_present [OF c]) (simp_all add: answered_Return)
qed

theorem no_duplicate_items_witness:
  "distinct_items (conn (bike_shop\<lparr>stdin := [''4'', ''Road'', ''2'', ''7'', ''1'', ''7'', ''5'']\<rparr>)) \<and>
   distinct_items (conn (world_of (main_menu
      (bike_shop\<lparr>stdin := [''4'', ''Road'', ''2'', ''7'', ''1'', ''7'', ''5'']\<rparr>)))) \<and>
   answered ''You already have this product in your wishlist.'' 1
     (bike_shop\<lparr>stdin := ['' 05 '', ''3'']\<rparr>)
     (add_item_by_id ''Road'' (bike_shop\<lparr>stdin := ['' 05 '', ''3'']\<rparr>)) \<and>
   answered ''You already have this product in your wishlist.'' 1
     (bike_shop\<lparr>stdin := [''helm'', ''3'']\<rparr>)
     (add_item_by_name ''Road'' (bike_shop\<lparr>stdin := [''helm'', ''3'']\<rparr>)) \<and>
   answered ''You already have this product in your wishlist.'' 2
     (bike_shop\<lparr>stdin := [''BIKE'', ''6'', ''3'']\<rparr>)
     (add_item_by_name ''Road'' (bike_shop\<lparr>stdin := [''BIKE'', ''6'', ''3'']\<rparr>))"
proof -
  have d: "distinct_items (conn (bike_shop\<lparr>stdin := [''4'', ''Road'', ''2'', ''7'', ''1'', ''7'', ''5'']\<rparr>))"
    by (simp add: bike_shop_def distinct_items_def item_key_def)
  have h5: "holds ''Road'' 5 (conn bike_shop)" and h6: "holds ''Road'' 6 (conn bike_shop)"
    by (simp_all add: holds_def bike_shop_def)
  have i5: "int4in (strip '' 05 '') = Some 5" and i6: "int4in (strip ''6'') = Some 6"
    by (simp_all add: text_defs)
  have n: "lower (strip ''helm'') \<noteq> ''exit''" "lower (strip ''BIKE'') \<noteq> ''exit''"
    by (simp_all add: text_defs)
  show ?thesis
    using no_duplicate_items [of "bike_shop\<lparr>stdin := [''4'', ''Road'', ''2'', ''7'', ''1'', ''7'', ''5'']\<rparr>"
        "''Road''" 5 "bike_shop\<lparr>stdin := ['' 05 '', ''3'']\<rparr>" "'' 05 ''" "[''3'']"
        "bike_shop\<lparr>stdin := [''helm'', ''3'']\<rparr>" "''helm''" "[''3'']" "''Helmet''"]
      no_duplicate_items [of bike_shop "''Road''" 6 bike_shop "[]" "[]" bike_shop "[]" "[]" "[]"
        "bike_shop\<lparr>stdin := [''BIKE'', ''6'', ''3'']\<rparr>" "''BIKE''" "''6''" "[''3'']"
        "(6, ''Road Bike'')" "(7, ''Gravel Bike'')" "[]"]
      d h5 h6 i5 i6 n like_examples
    by simp
qed

subsection \<open>The cancel keyword\<close>

lemma add_to_wishlist_error:
  "compared pid = None \<Longrightarrow> add_to_wishlist wl pid w = Raise DataError w"
  by (simp add: add_to_wishlist_def select_Wish_List_def)

text \<open>
  C3, as stated, at the prompt that asks which of several matches is meant: the prompt
  offers no cancel keyword, \<open>exit\<close> is taken for a product ID, and the store's
  comparison of it with the integer column raises. The operation is not cancelled and
  the run ends.
\<close>

theorem exit_at_match_prompt_counterexample:
  "lower (strip ''exit'') = ''exit'' \<and>
   select_Products_ilike (''%'' @ strip ''BIKE'' @ ''%'') (conn bike_shop)
     = [(6, ''Road Bike''), (7, ''Gravel Bike'')] \<and>
   add_item_by_name ''Road'' (bike_shop\<lparr>stdin := [''BIKE'', ''exit'', ''3'']\<rparr>) =
     Raise DataError
       (after_input ''Enter the product ID of the desired match: ''
         (show_matches [(6, ''Road Bike''), (7, ''Gravel Bike'')]
           (after_input ''Enter the product name to add (or type 'exit' to cancel): ''
             (bike_shop\<lparr>stdin := [''BIKE'', ''exit'', ''3'']\<rparr>)))) \<and>
   \<not> answered ''Operation canceled.'' 2 (bike_shop\<lparr>stdin := [''BIKE'', ''exit'', ''3'']\<rparr>)
       (add_item_by_name ''Road'' (bike_shop\<lparr>stdin := [''BIKE'', ''exit'', ''3'']\<rparr>))"
proof -
  let ?w = "bike_shop\<lparr>stdin := [''BIKE'', ''exit'', ''3'']\<rparr>"
  have s: "stdin ?w = ''BIKE'' # ''exit'' # [''3'']" by simp
  have n: "lower (strip ''BIKE'') \<noteq> ''exit''" by (simp add: text_defs)
  have m: "select_Products_ilike (''%'' @ strip ''BIKE'' @ ''%'') (conn ?w)
     = (6, ''Road Bike'') # (7, ''Gravel Bike'') # []"
    using like_examples(2) by simp
  have c: "compared (PyStr (strip ''exit'')) = None"
    by (simp add: compared_def text_defs)
  have e: "lower (strip ''exit'') = ''exit''" by (simp add: text_defs)
  show ?thesis
    unfolding add_item_by_name_many [OF s n m] add_to_wishlist_error [OF c]
    using e like_examples(2) by (simp add: answered_def)
qed

text \<open>
  C3 (amended): at every prompt of the item editor that offers the cancel keyword,
  a line that is \<open>exit\<close> once stripped and lowercased ends the operation: it returns
  to the menu with the store as it was and \<open>Operation canceled.\<close> as its last line.
  These prompts are the first prompt of each of the five operations, the quantity
  prompt of Add Item by ID, of Add Item by Name (after one match, and after several
  matches and a chosen ID) and of Modify Quantity, and the yes/no prompt of Modify
  Ownership Status. The prompt for the ID of the desired match is not among them.
\<close>

theorem exit_cancels:
  assumes "lower (strip x) = ''exit''"
  shows "(stdin w = x # rest \<longrightarrow>
            answered ''Operation canceled.'' 1 w (add_item_by_id wl w) \<and>
            answered ''Operation canceled.'' 1 w (add_item_by_name wl w) \<and>
            answered ''Operation canceled.'' 1 w (remove_item wl w) \<and>
            answered ''Operation canceled.'' 1 w (modify_quantity wl w) \<and>
            answered ''Operation canceled.'' 1 w (modify_ownership wl w)) \<and>
         (stdin w = l # x # rest \<and> int4in (strip l) = Some p \<and> \<not> holds wl p (conn w) \<longrightarrow>
            answered ''Operation canceled.'' 2 w (add_item_by_id wl w)) \<and>
         (stdin w = l # x # rest \<and> lower (strip l) \<noteq> ''exit'' \<and>
          select_Products_ilike (''%'' @ strip l @ ''%'') (conn w) = [(p, pname)] \<and>
          \<not> holds wl p (conn w) \<longrightarrow>
            answered ''Operation canceled.'' 2 w (add_item_by_name wl w)) \<and>
         (stdin w = l # l' # x # rest \<and> lower (strip l) \<noteq> ''exit'' \<and>
          select_Products_ilike (''%'' @ strip l @ ''%'') (conn w) = m # m' # ms \<and>
          int4in (strip l') = Some p \<and> \<not> holds wl p (conn w) \<longrightarrow>
            answered ''Operation canceled.'' 3 w (add_item_by_name wl w)) \<and>
         (stdin w = l # x # rest \<and> int4in (strip l) = Some p \<and> holds wl p (conn w) \<longrightarrow>
            answered ''Operation canceled.'' 2 w (modify_quantity wl w)) \<and>
         (stdin w = l # x # rest \<and> lower (strip l) \<noteq> ''exit'' \<longrightarrow>
            answered ''Operation canceled.'' 2 w (modify_ownership wl w))"
proof (intro conjI impI)
  assume s: "stdin w = x # rest"
  show "answered ''Operation canceled.'' 1 w (add_item_by_id wl w)"
    using s by (simp add: add_item_by_id_cancel [OF s assms] answered_Return)
  show "answered ''Operation canceled.'' 1 w (add_item_by_name wl w)"
    using s by (simp add: add_item_by_name_cancel [OF s assms] answered_Return)
  show "answered ''Operation canceled.'' 1 w (remove_item wl w)"
    using s by (simp add: remove_item_cancel [OF s assms] answered_Return)
  show "answered ''Operation canceled.'' 1 w (modify_quantity wl w)"
    using s by (simp add: modify_quantity_cancel [OF s assms] answered_Return)
  show "answered ''Operation canceled.'' 1 w (modify_ownership wl w)"
    using s by (simp add: modify_ownership_cancel [OF s assms] answered_Return)
next
  assume a: "stdin w = l # x # rest \<and> int4in (strip l) = Some p \<and> \<not> holds wl p (conn w)"
  then have s: "stdin w = l # x # rest" and i: "int4in (strip l) = Some p"
    and h: "\<not> holds wl p (conn w)" by simp_all
  let ?w1 = "after_input ''Enter the product ID to add (or type 'exit' to cancel): '' w"
  have c: "compared (PyStr (strip l)) = Some p" using i by (simp add: compared_def)
  have h1: "\<not> holds wl p (conn ?w1)" using h by simp
  have s1: "stdin ?w1 = x # rest" using s by simp
  show "answered ''Operation canceled.'' 2 w (add_item_by_id wl w)"
    unfolding add_item_by_id_go [OF s int4in_not_exit [OF i]]
      add_to_wishlist_cancel [OF c h1 s1 assms]
    using s by (simp add: answered_Return)
next
  assume a: "stdin w = l # x # rest \<and> lower (strip l) \<noteq> ''exit'' \<and>
          select_Products_ilike (''%'' @ strip l @ ''%'') (conn w) = [(p, pname)] \<and>
          \<not> holds wl p (conn w)"
  then have s: "stdin w = l # x # rest" and n: "lower (strip l) \<noteq> ''exit''"
    and m: "select_Products_ilike (''%'' @ strip l @ ''%'') (conn w) = [(p, pname)]"
    and h: "\<not> holds wl p (conn w)" by simp_all
  let ?w1 = "print (''Matched Product: '' @ pname @ '' (ID: '' @ str_int p @ '')'')
               (after_input ''Enter the product name to add (or type 'exit' to cancel): '' w)"
  have c: "compared (PyInt p) = Some p" by (simp add: compared_def)
  have h1: "\<not> holds wl p (conn ?w1)" using h by simp
  have s1: "stdin ?w1 = x # rest" using s by simp
  show "answered ''Operation canceled.'' 2 w (add_item_by_name wl w)"
    unfolding add_item_by_name_one [OF s n m] add_to_wishlist_cancel [OF c h1 s1 assms]
    using s by (simp add: answered_Return)
next
  assume a: "stdin w = l # l' # x # rest \<and> lower (strip l) \<noteq> ''exit'' \<and>
          select_Products_ilike (''%'' @ strip l @ ''%'') (conn w) = m # m' # ms \<and>
          int4in (strip l') = Some p \<and> \<not> holds wl p (conn w)"
  then have s: "stdin w = l # l' # x # rest" and n: "lower (strip l) \<noteq> ''exit''"
    and m: "select_Products_ilike (''%'' @ strip l @ ''%'') (conn w) = m # m' # ms"
    and i: "int4in (strip l') = Some p" and h: "\<not> holds wl p (conn w)" by simp_all
  let ?w1 = "after_input ''Enter the product ID of the desired match: ''
               (show_matches (m # m' # ms)
                 (after_input ''Enter the product name to add (or type 'exit' to cancel): '' w))"
  have c: "compared (PyStr (strip l')) = Some p" using i by (simp add: compared_def)
  have h1: "\<not> holds wl p (conn ?w1)" using h by simp
  have s1: "stdin ?w1 = x # rest" using s by simp
  show "answered ''Operation canceled.'' 3 w (add_item_by_name wl w)"
    unfolding add_item_by_name_many [OF s n m] add_to_wishlist_cancel [OF c h1 s1 assms]
    using s by (simp add: answered_Return)
next
  assume a: "stdin w = l # x # rest \<and> int4in (strip l) = Some p \<and> holds wl p (conn w)"
  then have s: "stdin w = l # x # rest" and i: "int4in (strip l) = Some p"
    and h: "holds wl p (conn w)" by simp_all
  show "answered ''Operation canceled.'' 2 w (modify_quantity wl w)"
    unfolding modify_quantity_go [OF s i h]
    using s assms by (simp add: answered_Return)
next
  assume a: "stdin w = l # x # rest \<and> lower (strip l) \<noteq> ''exit''"
  then have s: "stdin w = l # x # rest" and n: "lower (strip l) \<noteq> ''exit''" by simp_all
  show "answered ''Operation canceled.'' 2 w (modify_ownership wl w)"
    unfolding modify_ownership_go [OF s n]
    using s assms by (simp add: answered_Return)
qed

theorem exit_cancels_witness:
  "lower (strip '' EXIT '') = ''exit'' \<and>
   answered ''Operation canceled.'' 1 (bike_shop\<lparr>stdin := ['' EXIT '', ''7'']\<rparr>)
     (add_item_by_id ''Road'' (bike_shop\<lparr>stdin := ['' EXIT '', ''7'']\<rparr>)) \<and>
   answered ''Operation canceled.'' 1 (bike_shop\<lparr>stdin := ['' EXIT '', ''7'']\<rparr>)
     (add_item_by_name ''Road'' (bike_shop\<lparr>stdin := ['' EXIT '', ''7'']\<rparr>)) \<and>
   answered ''Operation canceled.'' 1 (bike_shop\<lparr>stdin := ['' EXIT '', ''7'']\<rparr>)
     (remove_item ''Road'' (bike_shop\<lparr>stdin := ['' EXIT '', ''7'']\<rparr>)) \<and>
   answered ''Operation canceled.'' 1 (bike_shop\<lparr>stdin := ['' EXIT '', ''7'']\<rparr>)
     (modify_quantity ''Road'' (bike_shop\<lparr>stdin := ['' EXIT '', ''7'']\<rparr>)) \<and>
   answered ''Operation canceled.'' 1 (bike_shop\<lparr>stdin := ['' EXIT '', ''7'']\<rparr>)
     (modify_ownership ''Road'' (bike_shop\<lparr>stdin := ['' EXIT '', ''7'']\<rparr>)) \<and>
   int4in (strip ''7'') = Some 7 \<and> \<not> holds ''Road'' 7 (conn bike_shop) \<and>
   answered ''Operation canceled.'' 2 (bike_shop\<lparr>stdin := [''7'', '' EXIT '']\<rparr>)
     (add_item_by_id ''Road'' (bike_shop\<lparr>stdin := [''7'', '' EXIT '']\<rparr>)) \<and>
   answered ''Operation canceled.'' 2 (bike_shop\<lparr>stdin := [''gravel'', '' EXIT '']\<rparr>)
     (add_item_by_name ''Road'' (bike_shop\<lparr>stdin := [''gravel'', '' EXIT '']\<rparr>)) \<and>
   answered ''Operation canceled.'' 3 (bike_shop\<lparr>stdin := [''BIKE'', ''7'', '' EXIT '']\<rparr>)
     (add_item_by_name ''Road'' (bike_shop\<lparr>stdin := [''BIKE'', ''7'', '' EXIT '']\<rparr>)) \<and>
   int4in (strip ''5'') = Some 5 \<and> holds ''Road'' 5 (conn bike_shop) \<and>
   answered ''Operation canceled.'' 2 (bike_shop\<lparr>stdin := [''5'', '' EXIT '']\<rparr>)
     (modify_quantity ''Road'' (bike_shop\<lparr>stdin := [''5'', '' EXIT '']\<rparr>)) \<and>
   answered ''Operation canceled.'' 2 (bike_shop\<lparr>stdin := [''5'', '' EXIT '']\<rparr>)
     (modify_ownership ''Road'' (bike_shop\<lparr>stdin := [''5'', '' EXIT '']\<rparr>))"
proof -
  have e: "lower (strip '' EXIT '') = ''exit''" by (simp add: text_defs)
  have i7: "int4in (strip ''7'') = Some 7" and i5: "int4in (strip ''5'') = Some 5"
    by (simp_all add: text_defs)
  have h7: "\<not> holds ''Road'' 7 (conn bike_shop)" and h5: "holds ''Road'' 5 (conn bike_shop)"
    by (simp_all add: holds_def bike_shop_def)
  have n: "lower (strip ''gravel'') \<noteq> ''exit''" "lower (strip ''BIKE'') \<noteq> ''exit''"
    "lower (strip ''5'') \<noteq> ''exit''"
    by (simp_all add: text_defs)
  have c1: "answered ''Operation canceled.'' 1 (bike_shop\<lparr>stdin := ['' EXIT '', ''7'']\<rparr>)
       (add_item_by_id ''Road'' (bike_shop\<lparr>stdin := ['' EXIT '', ''7'']\<rparr>)) \<and>
     answered ''Operation canceled.'' 1 (bike_shop\<lparr>stdin := ['' EXIT '', ''7'']\<rparr>)
       (add_item_by_name ''Road'' (bike_shop\<lparr>stdin := ['' EXIT '', ''7'']\<rparr>)) \<and>
     answered ''Operation canceled.'' 1 (bike_shop\<lparr>stdin := ['' EXIT '', ''7'']\<rparr>)
       (remove_item ''Road'' (bike_shop\<lparr>stdin := ['' EXIT '', ''7'']\<rparr>)) \<and>
     answered ''Operation canceled.'' 1 (bike_shop\<lparr>stdin := ['' EXIT '', ''7'']\<rparr>)
       (modify_quantity ''Road'' (bike_shop\<lparr>stdin := ['' EXIT '', ''7'']\<rparr>)) \<and>
     answered ''Operation canceled.'' 1 (bike_shop\<lparr>stdin := ['' EXIT '', ''7'']\<rparr>)
       (modify_ownership ''Road'' (bike_shop\<lparr>stdin := ['' EXIT '', ''7'']\<rparr>))"
    by (rule exit_cancels [OF e, THEN conjunct1, THEN mp]) simp
  have c2: "answered ''Operation canceled.'' 2 (bike_shop\<lparr>stdin := [''7'', '' EXIT '']\<rparr>)
       (add_item_by_id ''Road'' (bike_shop\<lparr>stdin := [''7'', '' EXIT '']\<rparr>))"
    by (rule exit_cancels [where p = 7 and rest = "[]" and l = "''7''", OF e,
          THEN conjunct2, THEN conjunct1, THEN mp])
      (simp add: i7 h7)
  have c3: "answered ''Operation canceled.'' 2 (bike_shop\<lparr>stdin := [''gravel'', '' EXIT '']\<rparr>)
       (add_item_by_name ''Road'' (bike_shop\<lparr>stdin := [''gravel'', '' EXIT '']\<rparr>))"
    by (rule exit_cancels [where p = 7 and rest = "[]" and pname = "''Gravel Bike''"
            and l = "''gravel''", OF e,
          THEN conjunct2, THEN conjunct2, THEN conjunct1, THEN mp])
      (use n h7 like_gravel in simp)
  have c4: "answered ''Operation canceled.'' 3 (bike_shop\<lparr>stdin := [''BIKE'', ''7'', '' EXIT '']\<rparr>)
       (add_item_by_name ''Road'' (bike_shop\<lparr>stdin := [''BIKE'', ''7'', '' EXIT '']\<rparr>))"
    by (rule exit_cancels [where p = 7 and rest = "[]" and m = "(6, ''Road Bike'')"
            and m' = "(7, ''Gravel Bike'')" and ms = "[]" and l = "''BIKE''" and l' = "''7''", OF e,
          THEN conjunct2, THEN conjunct2, THEN conjunct2, THEN conjunct1, THEN mp])
      (use n h7 i7 like_examples in simp)
  have c5: "answered ''Operation canceled.'' 2 (bike_shop\<lparr>stdin := [''5'', '' EXIT '']\<rparr>)
       (modify_quantity ''Road'' (bike_shop\<lparr>stdin := [''5'', '' EXIT '']\<rparr>))"
    by (rule exit_cancels [where p = 5 and rest = "[]" and l = "''5''", OF e,
          THEN conjunct2, THEN conjunct2, THEN conjunct2, THEN conjunct2, THEN conjunct1, THEN mp])
      (simp add: i5 h5)
  have c6: "answered ''Operation canceled.'' 2 (bike_shop\<lparr>stdin := [''5'', '' EXIT '']\<rparr>)
       (modify_ownership ''Road'' (bike_shop\<lparr>stdin := [''5'', '' EXIT '']\<rparr>))"
    by (rule exit_cancels [where rest = "[]" and l = "''5''", OF e,
          THEN conjunct2, THEN conjunct2, THEN conjunct2, THEN conjunct2, THEN conjunct2, THEN mp])
      (simp add: n)
  from e c1 i7 h7 c2 c3 c4 i5 h5 c5 c6 show ?thesis by blast
qed

subsection \<open>Quantities\<close>

lemma add_to_wishlist_number:
  assumes "stored pid = Some p" and "\<not> holds wl p (conn w)"
    and "stdin w = l # rest" and "py_int (strip l) = Some q"
  shows "add_to_wishlist wl pid w =
           (if in_int4 q
            then if wl \<in> set (List_Tracker (conn w)) \<and> known_product p (conn w)
                 then Return () (print ''Item added successfully.''
                   ((after_input ''Enter the quantity (or type 'exit' to cancel): '' w)
                      \<lparr>conn := (conn w)\<lparr>Wish_List := Wish_List (conn w) @
                         [\<lparr>wishlist_name = wl, product_id = p, number = q, owned = False\<rparr>]\<rparr>\<rparr>))
                 else Raise ForeignKeyViolation
                        (after_input ''Enter the quantity (or type 'exit' to cancel): '' w)
            else Raise DataError
                   (after_input ''Enter the quantity (or type 'exit' to cancel): '' w))"
proof -
  have c: "compared pid = Some p" using assms(1) by (rule stored_compared)
  have ne: "lower (strip l) \<noteq> ''exit''"
    using py_int_not_exit [OF assms(4)] by simp
  show ?thesis
    using not_holds_select [OF c assms(2)] ne assms(1,4)
    by (simp add: add_to_wishlist_def input_line [OF assms(3)] insert_Wish_List_def)
qed

lemma add_to_wishlist_quantity:
  assumes "stored pid = Some p" and "\<not> holds wl p (conn w0)"
    and "stdin w0 = lq # drop n (stdin w)" and "conn w0 = conn w" and "0 < n"
    and "py_int (strip lq) = Some q"
  shows "if in_int4 q \<and> wl \<in> set (List_Tracker (conn w)) \<and> known_product p (conn w)
         then finished ''Item added successfully.'' n
                ((conn w)\<lparr>Wish_List := Wish_List (conn w) @
                   [\<lparr>wishlist_name = wl, product_id = p, number = q, owned = False\<rparr>]\<rparr>)
                w (add_to_wishlist wl pid w0)
         else \<not> returned (add_to_wishlist wl pid w0) \<and>
              conn (world_of (add_to_wishlist wl pid w0)) = conn w"
  unfolding add_to_wishlist_number [OF assms(1,2,3,6)]
  using assms(3,4) by (simp add: finished_Return)

lemma add_to_wishlist_not_a_number:
  assumes "compared pid = Some p" and "\<not> holds wl p (conn w0)"
    and "stdin w0 = lq # drop n (stdin w)" and "conn w0 = conn w"
    and "py_int (strip lq) = None" and "lower (strip lq) \<noteq> ''exit''"
  shows "answered ''Invalid quantity. Please enter a number.'' n w (add_to_wishlist wl pid w0)"
  unfolding add_to_wishlist_invalid [OF assms(1,2,3,6,5)]
  using assms(3,4) by (simp add: answered_Return)

lemma select_Products_ilike_known:
  "(p, pname) \<in> set (select_Products_ilike pattern db) \<Longrightarrow> known_product p db"
  by (auto simp: select_Products_ilike_def known_product_def intro!: image_eqI)

text \<open>
  C4, as stated: Add Item by ID stores the quantity \<open>-3\<close> for a product of the
  catalogue, and Modify Quantity stores the quantity \<open>0\<close>. The program turns the
  typed text into an integer and tests nothing else.
\<close>

theorem quantity_not_positive_counterexample:
  "quantities_positive (conn road_shop) \<and>
   finished ''Item added successfully.'' 2
     ((conn road_shop)\<lparr>Wish_List :=
        [\<lparr>wishlist_name = ''Road'', product_id = 5, number = - 3, owned = False\<rparr>]\<rparr>)
     (road_shop\<lparr>stdin := [''5'', ''-3'']\<rparr>)
     (add_item_by_id ''Road'' (road_shop\<lparr>stdin := [''5'', ''-3'']\<rparr>)) \<and>
   \<not> quantities_positive
       (conn (world_of (add_item_by_id ''Road'' (road_shop\<lparr>stdin := [''5'', ''-3'']\<rparr>)))) \<and>
   quantities_positive (conn road_item) \<and>
   finished ''Quantity updated successfully.'' 2
     ((conn road_item)\<lparr>Wish_List :=
        [\<lparr>wishlist_name = ''Road'', product_id = 5, number = 0, owned = False\<rparr>]\<rparr>)
     (road_item\<lparr>stdin := [''5'', ''0'']\<rparr>)
     (modify_quantity ''Road'' (road_item\<lparr>stdin := [''5'', ''0'']\<rparr>)) \<and>
   \<not> quantities_positive
       (conn (world_of (modify_quantity ''Road'' (road_item\<lparr>stdin := [''5'', ''0'']\<rparr>))))"
proof -
  let ?w = "road_shop\<lparr>stdin := [''5'', ''-3'']\<rparr>"
  let ?w1 = "after_input ''Enter the product ID to add (or type 'exit' to cancel): '' ?w"
  have i5: "int4in (strip ''5'') = Some 5" by (simp add: text_defs)
  have go: "add_item_by_id ''Road'' ?w = add_to_wishlist ''Road'' (PyStr (strip ''5'')) ?w1"
    by (rule add_item_by_id_go [OF _ int4in_not_exit [OF i5]]) simp
  have st: "stored (PyStr (strip ''5'')) = Some 5" using i5 by (simp add: stored_def)
  have nh: "\<not> holds ''Road'' 5 (conn ?w1)" by (simp add: holds_def road_shop_def)
  have k: "''Road'' \<in> set (List_Tracker (conn ?w1))" "known_product 5 (conn ?w1)"
    by (simp_all add: road_shop_def known_product_def)
  have s1: "stdin ?w1 = [''-3'']" by simp
  have q: "py_int (strip ''-3'') = Some (- 3)" "in_int4 (- 3)" by (simp_all add: text_defs)
  have a: "add_item_by_id ''Road'' ?w =
      Return () (print ''Item added successfully.''
        ((after_input ''Enter the quantity (or type 'exit' to cancel): '' ?w1)
           \<lparr>conn := (conn ?w1)\<lparr>Wish_List := Wish_List (conn ?w1) @
              [\<lparr>wishlist_name = ''Road'', product_id = 5, number = - 3, owned = False\<rparr>]\<rparr>\<rparr>))"
    unfolding go by (rule add_to_wishlist_insert [OF st nh s1 q k])
  let ?v = "road_item\<lparr>stdin := [''5'', ''0'']\<rparr>"
  have h: "holds ''Road'' 5 (conn ?v)" by (simp add: holds_def road_item_def)
  have sv: "stdin ?v = ''5'' # ''0'' # []" by simp
  have q0: "py_int (strip ''0'') = Some 0" "lower (strip ''0'') \<noteq> ''exit''"
    by (simp_all add: text_defs)
  have b: "modify_quantity ''Road'' ?v =
      Return () (print ''Quantity updated successfully.''
        ((after_input ''Enter the new quantity (or type 'exit' to cancel): ''
            (after_input ''Enter the product ID to modify (or type 'exit' to cancel): '' ?v))
           \<lparr>conn := (conn ?v)\<lparr>Wish_List :=
               map (\<lambda>r. if wishlist_name r = ''Road'' \<and> product_id r = 5
                         then r\<lparr>number := 0\<rparr> else r) (Wish_List (conn ?v))\<rparr>\<rparr>))"
    unfolding modify_quantity_go [OF sv i5 h] using q0 by (simp add: in_int4_def)
  show ?thesis
    unfolding a b
    by (simp add: finished_Return quantities_positive_def road_shop_def road_item_def)
qed

text \<open>
  C4 (amended): whenever Add Item by ID, Add Item by Name (after one match, and after
  several matches and a chosen ID) or Modify Quantity gets a line that \<open>int()\<close> reads
  as an integer, that integer is the quantity written, whatever its sign. Add writes one
  new row, not owned, with that quantity, provided the quantity fits the 32 bits of the
  column, the wishlist is in the registry and the product is in the catalogue;
  otherwise the store refuses the statement, the run ends and the store is as it was.
  Modify Quantity writes that quantity to the rows of that wishlist and product and to
  nothing else, provided it fits the column; otherwise the run ends with the store as
  it was. A line that \<open>int()\<close> rejects, other than the cancel keyword, leaves the
  store as it was, with the message that the quantity is invalid. Nowhere is the sign
  of the quantity tested.
\<close>

theorem quantity_as_typed:
  "(stdin w = l # lq # rest \<and> int4in (strip l) = Some p \<and> \<not> holds wl p (conn w) \<longrightarrow>
      (py_int (strip lq) = Some q \<longrightarrow>
         (if in_int4 q \<and> wl \<in> set (List_Tracker (conn w)) \<and> known_product p (conn w)
          then finished ''Item added successfully.'' 2
                 ((conn w)\<lparr>Wish_List := Wish_List (conn w) @
                    [\<lparr>wishlist_name = wl, product_id = p, number = q, owned = False\<rparr>]\<rparr>)
                 w (add_item_by_id wl w)
          else \<not> returned (add_item_by_id wl w) \<and>
               conn (world_of (add_item_by_id wl w)) = conn w)) \<and>
      (py_int (strip lq) = None \<and> lower (strip lq) \<noteq> ''exit'' \<longrightarrow>
         answered ''Invalid quantity. Please enter a number.'' 2 w (add_item_by_id wl w))) \<and>
   (stdin w = l # lq # rest \<and> lower (strip l) \<noteq> ''exit'' \<and>
    select_Products_ilike (''%'' @ strip l @ ''%'') (conn w) = [(p, pname)] \<and>
    in_int4 p \<and> \<not> holds wl p (conn w) \<longrightarrow>
      (py_int (strip lq) = Some q \<longrightarrow>
         (if in_int4 q \<and> wl \<in> set (List_Tracker (conn w))
          then finished ''Item added successfully.'' 2
                 ((conn w)\<lparr>Wish_List := Wish_List (conn w) @
                    [\<lparr>wishlist_name = wl, product_id = p, number = q, owned = False\<rparr>]\<rparr>)
                 w (add_item_by_name wl w)
          else \<not> returned (add_item_by_name wl w) \<and>
               conn (world_of (add_item_by_name wl w)) = conn w)) \<and>
      (py_int (strip lq) = None \<and> lower (strip lq) \<noteq> ''exit'' \<longrightarrow>
         answered ''Invalid quantity. Please enter a number.'' 2 w (add_item_by_name wl w))) \<and>
   (stdin w = l # l' # lq # rest \<and> lower (strip l) \<noteq> ''exit'' \<and>
    select_Products_ilike (''%'' @ strip l @ ''%'') (conn w) = m # m' # ms \<and>
    int4in (strip l') = Some p \<and> \<not> holds wl p (conn w) \<longrightarrow>
      (py_int (strip lq) = Some q \<longrightarrow>
         (if in_int4 q \<and> wl \<in> set (List_Tracker (conn w)) \<and> known_product p (conn w)
          then finished ''Item added successfully.'' 3
                 ((conn w)\<lparr>Wish_List := Wish_List (conn w) @
                    [\<lparr>wishlist_name = wl, product_id = p, number = q, owned = False\<rparr>]\<rparr>)
                 w (add_item_by_name wl w)
          else \<not> returned (add_item_by_name wl w) \<and>
               conn (world_of (add_item_by_name wl w)) = conn w)) \<and>
      (py_int (strip lq) = None \<and> lower (strip lq) \<noteq> ''exit'' \<longrightarrow>
         answered ''Invalid quantity. Please enter a number.'' 3 w (add_item_by_name wl w))) \<and>
   (stdin w = l # lq # rest \<and> int4in (strip l) = Some p \<and> holds wl p (conn w) \<longrightarrow>
      (py_int (strip lq) = Some q \<longrightarrow>
         (if in_int4 q
          then finished ''Quantity updated successfully.'' 2
                 ((conn w)\<lparr>Wish_List :=
                    map (\<lambda>r. if wishlist_name r = wl \<and> product_id r = p then r\<lparr>number := q\<rparr> else r)
                      (Wish_List (conn w))\<rparr>)
                 w (modify_quantity wl w)
          else \<not> returned (modify_quantity wl w) \<and>
               conn (world_of (modify_quantity wl w)) = conn w)) \<and>
      (py_int (strip lq) = None \<and> lower (strip lq) \<noteq> ''exit'' \<longrightarrow>
         answered ''Invalid quantity. Please enter a number.'' 2 w (modify_quantity wl w)))"
proof (intro conjI impI)
  assume a: "stdin w = l # lq # rest \<and> int4in (strip l) = Some p \<and> \<not> holds wl p (conn w)"
  then have s: "stdin w = l # lq # rest" and i: "int4in (strip l) = Some p"
    and h: "\<not> holds wl p (conn w)" by simp_all
  let ?w1 = "after_input ''Enter the product ID to add (or type 'exit' to cancel): '' w"
  have go: "add_item_by_id wl w = add_to_wishlist wl (PyStr (strip l)) ?w1"
    by (rule add_item_by_id_go [OF s int4in_not_exit [OF i]])
  have st: "stored (PyStr (strip l)) = Some p" using i by (simp add: stored_def)
  have h1: "\<not> holds wl p (conn ?w1)" using h by simp
  have s1: "stdin ?w1 = lq # drop 2 (stdin w)" using s by simp
  have c1: "conn ?w1 = conn w" by simp
  {
    assume q: "py_int (strip lq) = Some q"
    show "if in_int4 q \<and> wl \<in> set (List_Tracker (conn w)) \<and> known_product p (conn w)
          then finished ''Item added successfully.'' 2
                 ((conn w)\<lparr>Wish_List := Wish_List (conn w) @
                    [\<lparr>wishlist_name = wl, product_id = p, number = q, owned = False\<rparr>]\<rparr>)
                 w (add_item_by_id wl w)
          else \<not> returned (add_item_by_id wl w) \<and>
               conn (world_of (add_item_by_id wl w)) = conn w"
      unfolding go by (rule add_to_wishlist_quantity [OF st h1 s1 c1 _ q]) simp
  }
  {
    assume q: "py_int (strip lq) = None \<and> lower (strip lq) \<noteq> ''exit''"
    show "answered ''Invalid quantity. Please enter a number.'' 2 w (add_item_by_id wl w)"
      unfolding go
      by (rule add_to_wishlist_not_a_number [OF stored_compared [OF st] h1 s1 c1
            q [THEN conjunct1] q [THEN conjunct2]])
  }
next
  assume a: "stdin w = l # lq # rest \<and> lower (strip l) \<noteq> ''exit'' \<and>
    select_Products_ilike (''%'' @ strip l @ ''%'') (conn w) = [(p, pname)] \<and>
    in_int4 p \<and> \<not> holds wl p (conn w)"
  then have s: "stdin w = l # lq # rest" and n: "lower (strip l) \<noteq> ''exit''"
    and m: "select_Products_ilike (''%'' @ strip l @ ''%'') (conn w) = [(p, pname)]"
    and r: "in_int4 p" and h: "\<not> holds wl p (conn w)" by simp_all
  let ?w1 = "print (''Matched Product: '' @ pname @ '' (ID: '' @ str_int p @ '')'')
               (after_input ''Enter the product name to add (or type 'exit' to cancel): '' w)"
  have go: "add_item_by_name wl w = add_to_wishlist wl (PyInt p) ?w1"
    by (rule add_item_by_name_one [OF s n m])
  have st: "stored (PyInt p) = Some p" using r by (simp add: stored_def)
  have h1: "\<not> holds wl p (conn ?w1)" using h by simp
  have s1: "stdin ?w1 = lq # drop 2 (stdin w)" using s by simp
  have c1: "conn ?w1 = conn w" by simp
  have k: "known_product p (conn w)"
    using select_Products_ilike_known [of p pname "''%'' @ strip l @ ''%''" "conn w"] m by simp
  {
    assume q: "py_int (strip lq) = Some q"
    from add_to_wishlist_quantity [OF st h1 s1 c1 _ q] k
    show "if in_int4 q \<and> wl \<in> set (List_Tracker (conn w))
          then finished ''Item added successfully.'' 2
                 ((conn w)\<lparr>Wish_List := Wish_List (conn w) @
                    [\<lparr>wishlist_name = wl, product_id = p, number = q, owned = False\<rparr>]\<rparr>)
                 w (add_item_by_name wl w)
          else \<not> returned (add_item_by_name wl w) \<and>
               conn (world_of (add_item_by_name wl w)) = conn w"
      unfolding go by simp
  }
  {
    assume q: "py_int (strip lq) = None \<and> lower (strip lq) \<noteq> ''exit''"
    show "answered ''Invalid quantity. Please enter a number.'' 2 w (add_item_by_name wl w)"
      unfolding go
      by (rule add_to_wishlist_not_a_number [OF stored_compared [OF st] h1 s1 c1
            q [THEN conjunct1] q [THEN conjunct2]])
  }
next
  assume a: "stdin w = l # l' # lq # rest \<and> lower (strip l) \<noteq> ''exit'' \<and>
    select_Products_ilike (''%'' @ strip l @ ''%'') (conn w) = m # m' # ms \<and>
    int4in (strip l') = Some p \<and> \<not> holds wl p (conn w)"
  then have s: "stdin w = l # l' # lq # rest" and n: "lower (strip l) \<noteq> ''exit''"
    and m: "select_Products_ilike (''%'' @ strip l @ ''%'') (conn w) = m # m' # ms"
    and i: "int4in (strip l') = Some p" and h: "\<not> holds wl p (conn w)" by simp_all
  let ?w1 = "after_input ''Enter the product ID of the desired match: ''
               (show_matches (m # m' # ms)
                 (after_input ''Enter the product name to add (or type 'exit' to cancel): '' w))"
  have go: "add_item_by_name wl w = add_to_wishlist wl (PyStr (strip l')) ?w1"
    by (rule add_item_by_name_many [OF s n m])
  have st: "stored (PyStr (strip l')) = Some p" using i by (simp add: stored_def)
  have h1: "\<not> holds wl p (conn ?w1)" using h by simp
  have s1: "stdin ?w1 = lq # drop 3 (stdin w)" using s by simp
  have c1: "conn ?w1 = conn w" by simp
  {
    assume q: "py_int (strip lq) = Some q"
    show "if in_int4 q \<and> wl \<in> set (List_Tracker (conn w)) \<and> known_product p (conn w)
          then finished ''Item added successfully.'' 3
                 ((conn w)\<lparr>Wish_List := Wish_List (conn w) @
                    [\<lparr>wishlist_name = wl, product_id = p, number = q, owned = False\<rparr>]\<rparr>)
                 w (add_item_by_name wl w)
          else \<not> returned (add_item_by_name wl w) \<and>
               conn (world_of (add_item_by_name wl w)) = conn w"
      unfolding go by (rule add_to_wishlist_quantity [OF st h1 s1 c1 _ q]) simp
  }
  {
    assume q: "py_int (strip lq) = None \<and> lower (strip lq) \<noteq> ''exit''"
    show "answered ''Invalid quantity. Please enter a number.'' 3 w (add_item_by_name wl w)"
      unfolding go
      by (rule add_to_wishlist_not_a_number [OF stored_compared [OF st] h1 s1 c1
            q [THEN conjunct1] q [THEN conjunct2]])
  }
next
  assume a: "stdin w = l # lq # rest \<and> int4in (strip l) = Some p \<and> holds wl p (conn w)"
  then have s: "stdin w = l # lq # rest" and i: "int4in (strip l) = Some p"
    and h: "holds wl p (conn w)" by simp_all
  {
    assume q: "py_int (strip lq) = Some q"
    then have "lower (strip lq) \<noteq> ''exit''" using py_int_not_exit [of "strip lq" q] by simp
    with q show "if in_int4 q
          then finished ''Quantity updated successfully.'' 2
                 ((conn w)\<lparr>Wish_List :=
                    map (\<lambda>r. if wishlist_name r = wl \<and> product_id r = p then r\<lparr>number := q\<rparr> else r)
                      (Wish_List (conn w))\<rparr>)
                 w (modify_quantity wl w)
          else \<not> returned (modify_quantity wl w) \<and>
               conn (world_of (modify_quantity wl w)) = conn w"
      unfolding modify_quantity_go [OF s i h]
      using s by (simp add: finished_Return)
  }
  {
    assume q: "py_int (strip lq) = None \<and> lower (strip lq) \<noteq> ''exit''"
    then show "answered ''Invalid quantity. Please enter a number.'' 2 w (modify_quantity wl w)"
      unfolding modify_quantity_go [OF s i h]
      using s by (simp add: answered_Return)
  }
qed

theorem quantity_as_typed_witness:
  "int4in (strip ''7'') = Some 7 \<and> \<not> holds ''Road'' 7 (conn bike_shop) \<and>
   py_int (strip ''-3'') = Some (- 3) \<and> in_int4 (- 3) \<and>
   ''Road'' \<in> set (List_Tracker (conn bike_shop)) \<and> known_product 7 (conn bike_shop) \<and>
   finished ''Item added successfully.'' 2
     ((conn bike_shop)\<lparr>Wish_List := Wish_List (conn bike_shop) @
        [\<lparr>wishlist_name = ''Road'', product_id = 7, number = - 3, owned = False\<rparr>]\<rparr>)
     (bike_shop\<lparr>stdin := [''7'', ''-3'']\<rparr>)
     (add_item_by_id ''Road'' (bike_shop\<lparr>stdin := [''7'', ''-3'']\<rparr>)) \<and>
   py_int (strip ''two'') = None \<and>
   answered ''Invalid quantity. Please enter a number.'' 2 (bike_shop\<lparr>stdin := [''7'', ''two'']\<rparr>)
     (add_item_by_id ''Road'' (bike_shop\<lparr>stdin := [''7'', ''two'']\<rparr>)) \<and>
   py_int (strip ''0'') = Some 0 \<and>
   finished ''Item added successfully.'' 2
     ((conn bike_shop)\<lparr>Wish_List := Wish_List (conn bike_shop) @
        [\<lparr>wishlist_name = ''Road'', product_id = 7, number = 0, owned = False\<rparr>]\<rparr>)
     (bike_shop\<lparr>stdin := [''gravel'', ''0'']\<rparr>)
     (add_item_by_name ''Road'' (bike_shop\<lparr>stdin := [''gravel'', ''0'']\<rparr>)) \<and>
   py_int (strip ''1.5'') = None \<and>
   answered ''Invalid quantity. Please enter a number.'' 2 (bike_shop\<lparr>stdin := [''gravel'', ''1.5'']\<rparr>)
     (add_item_by_name ''Road'' (bike_shop\<lparr>stdin := [''gravel'', ''1.5'']\<rparr>)) \<and>
   finished ''Item added successfully.'' 3
     ((conn bike_shop)\<lparr>Wish_List := Wish_List (conn bike_shop) @
        [\<lparr>wishlist_name = ''Road'', product_id = 7, number = - 3, owned = False\<rparr>]\<rparr>)
     (bike_shop\<lparr>stdin := [''BIKE'', ''7'', ''-3'']\<rparr>)
     (add_item_by_name ''Road'' (bike_shop\<lparr>stdin := [''BIKE'', ''7'', ''-3'']\<rparr>)) \<and>
   answered ''Invalid quantity. Please enter a number.'' 3 (bike_shop\<lparr>stdin := [''BIKE'', ''7'', ''two'']\<rparr>)
     (add_item_by_name ''Road'' (bike_shop\<lparr>stdin := [''BIKE'', ''7'', ''two'']\<rparr>)) \<and>
   int4in (strip ''5'') = Some 5 \<and> holds ''Road'' 5 (conn bike_shop) \<and>
   finished ''Quantity updated successfully.'' 2
     ((conn bike_shop)\<lparr>Wish_List :=
        map (\<lambda>r. if wishlist_name r = ''Road'' \<and> product_id r = 5 then r\<lparr>number := - 3\<rparr> else r)
          (Wish_List (conn bike_shop))\<rparr>)
     (bike_shop\<lparr>stdin := [''5'', ''-3'']\<rparr>)
     (modify_quantity ''Road'' (bike_shop\<lparr>stdin := [''5'', ''-3'']\<rparr>)) \<and>
   answered ''Invalid quantity. Please enter a number.'' 2 (bike_shop\<lparr>stdin := [''5'', ''two'']\<rparr>)
     (modify_quantity ''Road'' (bike_shop\<lparr>stdin := [''5'', ''two'']\<rparr>))"
proof -
  have i7: "int4in (strip ''7'') = Some 7" and i5: "int4in (strip ''5'') = Some 5"
    by (simp_all add: text_defs)
  have h7: "\<not> holds ''Road'' 7 (conn bike_shop)" and h5: "holds ''Road'' 5 (conn bike_shop)"
    by (simp_all add: holds_def bike_shop_def)
  have k: "''Road'' \<in> set (List_Tracker (conn bike_shop))" "known_product 7 (conn bike_shop)"
    by (simp_all add: bike_shop_def known_product_def)
  have q3: "py_int (strip ''-3'') = Some (- 3)" and q0: "py_int (strip ''0'') = Some 0"
    and r3: "in_int4 (- 3)" and r0: "in_int4 0" and r7: "in_int4 7"
    by (simp_all add: text_defs)
  have b: "py_int (strip ''two'') = None" "lower (strip ''two'') \<noteq> ''exit''"
    "py_int (strip ''1.5'') = None" "lower (strip ''1.5'') \<noteq> ''exit''"
    by (simp_all add: text_defs)
  have n: "lower (strip ''gravel'') \<noteq> ''exit''" "lower (strip ''BIKE'') \<noteq> ''exit''"
    by (simp_all add: text_defs)
  have c1: "finished ''Item added successfully.'' 2
     ((conn bike_shop)\<lparr>Wish_List := Wish_List (conn bike_shop) @
        [\<lparr>wishlist_name = ''Road'', product_id = 7, number = - 3, owned = False\<rparr>]\<rparr>)
     (bike_shop\<lparr>stdin := [''7'', ''-3'']\<rparr>)
     (add_item_by_id ''Road'' (bike_shop\<lparr>stdin := [''7'', ''-3'']\<rparr>))"
    using quantity_as_typed [where w = "bike_shop\<lparr>stdin := [''7'', ''-3'']\<rparr>" and wl = "''Road''"
          and q = "- 3" and l = "''7''" and lq = "''-3''" and rest = "[]" and p = 7]
      i7 h7 q3 r3 k
    by simp
  have c2: "answered ''Invalid quantity. Please enter a number.'' 2 (bike_shop\<lparr>stdin := [''7'', ''two'']\<rparr>)
     (add_item_by_id ''Road'' (bike_shop\<lparr>stdin := [''7'', ''two'']\<rparr>))"
    using quantity_as_typed [where w = "bike_shop\<lparr>stdin := [''7'', ''two'']\<rparr>" and wl = "''Road''"
          and q = "0" and l = "''7''" and lq = "''two''" and rest = "[]" and p = 7]
      i7 h7 b
    by simp
  have c3: "finished ''Item added successfully.'' 2
     ((conn bike_shop)\<lparr>Wish_List := Wish_List (conn bike_shop) @
        [\<lparr>wishlist_name = ''Road'', product_id = 7, number = 0, owned = False\<rparr>]\<rparr>)
     (bike_shop\<lparr>stdin := [''gravel'', ''0'']\<rparr>)
     (add_item_by_name ''Road'' (bike_shop\<lparr>stdin := [''gravel'', ''0'']\<rparr>))"
    using quantity_as_typed [where w = "bike_shop\<lparr>stdin := [''gravel'', ''0'']\<rparr>" and wl = "''Road''"
          and q = "0" and l = "''gravel''" and lq = "''0''" and rest = "[]" and p = 7 and pname = "''Gravel Bike''"]
      n h7 q0 r0 r7 k like_gravel
    by simp
  have c4: "answered ''Invalid quantity. Please enter a number.'' 2 (bike_shop\<lparr>stdin := [''gravel'', ''1.5'']\<rparr>)
     (add_item_by_name ''Road'' (bike_shop\<lparr>stdin := [''gravel'', ''1.5'']\<rparr>))"
    using quantity_as_typed [where w = "bike_shop\<lparr>stdin := [''gravel'', ''1.5'']\<rparr>" and wl = "''Road''"
          and q = "0" and l = "''gravel''" and lq = "''1.5''" and rest = "[]" and p = 7 and pname = "''Gravel Bike''"]
      n h7 b r7 like_gravel
    by simp
  have c5: "finished ''Item added successfully.'' 3
     ((conn bike_shop)\<lparr>Wish_List := Wish_List (conn bike_shop) @
        [\<lparr>wishlist_name = ''Road'', product_id = 7, number = - 3, owned = False\<rparr>]\<rparr>)
     (bike_shop\<lparr>stdin := [''BIKE'', ''7'', ''-3'']\<rparr>)
     (add_item_by_name ''Road'' (bike_shop\<lparr>stdin := [''BIKE'', ''7'', ''-3'']\<rparr>))"
    using quantity_as_typed [where w = "bike_shop\<lparr>stdin := [''BIKE'', ''7'', ''-3'']\<rparr>" and wl = "''Road''"
          and q = "- 3" and l = "''BIKE''" and l' = "''7''" and lq = "''-3''" and rest = "[]" and p = 7
          and m = "(6, ''Road Bike'')" and m' = "(7, ''Gravel Bike'')" and ms = "[]"]
      n h7 i7 q3 r3 k like_examples
    by simp
  have c6: "answered ''Invalid quantity. Please enter a number.'' 3 (bike_shop\<lparr>stdin := [''BIKE'', ''7'', ''two'']\<rparr>)
     (add_item_by_name ''Road'' (bike_shop\<lparr>stdin := [''BIKE'', ''7'', ''two'']\<rparr>))"
    using quantity_as_typed [where w = "bike_shop\<lparr>stdin := [''BIKE'', ''7'', ''two'']\<rparr>" and wl = "''Road''"
          and q = "0" and l = "''BIKE''" and l' = "''7''" and lq = "''two''" and rest = "[]" and p = 7
          and m = "(6, ''Road Bike'')" and m' = "(7, ''Gravel Bike'')" and ms = "[]"]
      n h7 i7 b like_examples
    by simp
  have c7: "finished ''Quantity updated successfully.'' 2
     ((conn bike_shop)\<lparr>Wish_List :=
        map (\<lambda>r. if wishlist_name r = ''Road'' \<and> product_id r = 5 then r\<lparr>number := - 3\<rparr> else r)
          (Wish_List (conn bike_shop))\<rparr>)
     (bike_shop\<lparr>stdin := [''5'', ''-3'']\<rparr>)
     (modify_quantity ''Road'' (bike_shop\<lparr>stdin := [''5'', ''-3'']\<rparr>))"
    using quantity_as_typed [where w = "bike_shop\<lparr>stdin := [''5'', ''-3'']\<rparr>" and wl = "''Road''"
          and q = "- 3" and l = "''5''" and lq = "''-3''" and rest = "[]" and p = 5]
      i5 h5 q3 r3
    by simp
  have c8: "answered ''Invalid quantity. Please enter a number.'' 2 (bike_shop\<lparr>stdin := [''5'', ''two'']\<rparr>)
     (modify_quantity ''Road'' (bike_shop\<lparr>stdin := [''5'', ''two'']\<rparr>))"
    using quantity_as_typed [where w = "bike_shop\<lparr>stdin := [''5'', ''two'']\<rparr>" and wl = "''Road''"
          and q = "0" and l = "''5''" and lq = "''two''" and rest = "[]" and p = 5]
      i5 h5 b
    by simp
  from i7 h7 q3 r3 k c1 b(1) c2 q0 c3 b(3) c4 c5 c6 i5 h5 c7 c8 show ?thesis by blast
qed

subsection \<open>Adding by name\<close>

lemma startswith_iff: "startswith s t \<longleftrightarrow> (\<exists>post. t = s @ post)"
  by (induction s t rule: startswith.induct) auto

lemma contains_iff: "contains s t \<longleftrightarrow> (\<exists>pre post. t = pre @ s @ post)"
proof (induction t)
  case Nil
  then show ?case by simp
next
  case (Cons y ys)
  show ?case
  proof
    assume "contains s (y # ys)"
    then consider "startswith s (y # ys)" | "contains s ys" by auto
    then show "\<exists>pre post. y # ys = pre @ s @ post"
    proof cases
      case 1
      then obtain post where "y # ys = s @ post" by (auto simp: startswith_iff)
      then have "y # ys = [] @ s @ post" by simp
      then show ?thesis by blast
    next
      case 2
      then obtain pre post where "ys = pre @ s @ post" using Cons.IH by auto
      then have "y # ys = (y # pre) @ s @ post" by simp
      then show ?thesis by blast
    qed
  next
    assume "\<exists>pre post. y # ys = pre @ s @ post"
    then obtain pre post where e: "y # ys = pre @ s @ post" by blast
    show "contains s (y # ys)"
    proof (cases pre)
      case Nil
      then have "startswith s (y # ys)" using e by (auto simp: startswith_iff)
      then show ?thesis by simp
    next
      case (Cons p ps)
      then have "ys = ps @ s @ post" using e by simp
      then have "contains s ys" using Cons.IH by blast
      then show ?thesis by simp
    qed
  qed
qed














subsection \<open>Ownership without a check\<close>

lemma modify_ownership_update:
  assumes "stdin w = l # a # rest" and "int4in (strip l) = Some p"
    and "lower (strip a) \<noteq> ''exit''"
  shows "modify_ownership wl w =
           Return () (print ''Ownership status updated successfully.''
             ((after_input ''Do you own this item? (yes/no or type 'exit' to cancel): ''
                (after_input ''Enter the product ID to modify ownership status (or type 'exit' to cancel): '' w))
              \<lparr>conn := set_owned (lower (strip a) = ''yes'') wl p (conn w)\<rparr>))"
  unfolding modify_ownership_go [OF assms(1) int4in_not_exit [OF assms(2)]]
  using assms(2,3) by (simp add: set_owned_def)

lemma set_owned_absent: "\<not> holds wl p db \<Longrightarrow> set_owned flag wl p db = db"
proof -
  assume "\<not> holds wl p db"
  then have "\<forall>r\<in>set (Wish_List db). \<not> (wishlist_name r = wl \<and> product_id r = p)"
    by (simp add: holds_def filter_empty_conv)
  then have "map (\<lambda>r. if wishlist_name r = wl \<and> product_id r = p then r\<lparr>owned := flag\<rparr> else r)
            (Wish_List db) = Wish_List db"
    by (intro map_idI) auto
  then show ?thesis by (simp add: set_owned_def)
qed

text \<open>
  C6: for a product ID with no row in the wishlist, Modify Ownership Status asks its
  yes/no question, issues the update, which matches no row, and reports success with
  the store as it was. Remove Item and Modify Quantity on the same input stop after the
  first line and report that the product is not in the wishlist; Add Item by ID looks
  for the row too, and refuses a product the wishlist already has.
\<close>

theorem ownership_not_checked:
  assumes "stdin w = l # a # rest" and "int4in (strip l) = Some p"
    and "\<not> holds wl p (conn w)" and "lower (strip a) \<noteq> ''exit''"
  shows "answered ''Ownership status updated successfully.'' 2 w (modify_ownership wl w) \<and>
         answered (''Product ID '' @ strip l @ '' does not exist in the wishlist ''
                   @ quoted wl @ ''.'') 1 w (remove_item wl w) \<and>
         answered (''Product ID '' @ strip l @ '' does not exist in the wishlist ''
                   @ quoted wl @ ''.'') 1 w (modify_quantity wl w) \<and>
         (holds wl p (conn v) \<and> stdin v = l # rest' \<longrightarrow>
            answered ''You already have this product in your wishlist.'' 1 v
              (add_item_by_id wl v))"
proof (intro conjI impI)
  show "answered ''Ownership status updated successfully.'' 2 w (modify_ownership wl w)"
    unfolding modify_ownership_update [OF assms(1,2,4)]
    using assms(1) set_owned_absent [OF assms(3)] by (simp add: answered_Return)
  show "answered (''Product ID '' @ strip l @ '' does not exist in the wishlist ''
                   @ quoted wl @ ''.'') 1 w (remove_item wl w)"
    unfolding remove_item_absent [OF assms(1,2,3)]
    using assms(1) by (simp add: answered_Return)
  show "answered (''Product ID '' @ strip l @ '' does not exist in the wishlist ''
                   @ quoted wl @ ''.'') 1 w (modify_quantity wl w)"
    unfolding modify_quantity_absent [OF assms(1,2,3)]
    using assms(1) by (simp add: answered_Return)
next
  assume a: "holds wl p (conn v) \<and> stdin v = l # rest'"
  then have s: "stdin v = l # rest'" by simp
  have c: "compared (PyStr (strip l)) = Some p" using assms(2) by (simp add: compared_def)
  show "answered ''You already have this product in your wishlist.'' 1 v (add_item_by_id wl v)"
    unfolding add_item_by_id_go [OF s int4in_not_exit [OF assms(2)]]
    using a by (subst add_to_wishlist_present [OF c]) (simp_all add: answered_Return)
qed

theorem ownership_not_checked_witness:
  "int4in (strip ''7'') = Some 7 \<and> \<not> holds ''Road'' 7 (conn bike_shop) \<and>
   lower (strip ''yes'') \<noteq> ''exit'' \<and>
   answered ''Ownership status updated successfully.'' 2 (bike_shop\<lparr>stdin := [''7'', ''yes'']\<rparr>)
     (modify_ownership ''Road'' (bike_shop\<lparr>stdin := [''7'', ''yes'']\<rparr>)) \<and>
   answered (''Product ID '' @ strip ''7'' @ '' does not exist in the wishlist ''
             @ quoted ''Road'' @ ''.'') 1 (bike_shop\<lparr>stdin := [''7'', ''yes'']\<rparr>)
     (remove_item ''Road'' (bike_shop\<lparr>stdin := [''7'', ''yes'']\<rparr>)) \<and>
   answered (''Product ID '' @ strip ''7'' @ '' does not exist in the wishlist ''
             @ quoted ''Road'' @ ''.'') 1 (bike_shop\<lparr>stdin := [''7'', ''yes'']\<rparr>)
     (modify_quantity ''Road'' (bike_shop\<lparr>stdin := [''7'', ''yes'']\<rparr>)) \<and>
   holds ''Road'' 7 (conn gravel_item) \<and>
   answered ''You already have this product in your wishlist.'' 1
     (gravel_item\<lparr>stdin := [''7'', ''2'']\<rparr>)
     (add_item_by_id ''Road'' (gravel_item\<lparr>stdin := [''7'', ''2'']\<rparr>))"
proof -
  have i: "int4in (strip ''7'') = Some 7" by (simp add: text_defs)
  have h: "\<not> holds ''Road'' 7 (conn (bike_shop\<lparr>stdin := [''7'', ''yes'']\<rparr>))"
    by (simp add: holds_def bike_shop_def)
  have n: "lower (strip ''yes'') \<noteq> ''exit''" by (simp add: text_defs)
  have g: "holds ''Road'' 7 (conn gravel_item)" by (simp add: holds_def gravel_item_def)
  have s: "stdin (bike_shop\<lparr>stdin := [''7'', ''yes'']\<rparr>) = ''7'' # ''yes'' # []" by simp
  from ownership_not_checked [OF s i h n, where v = "gravel_item\<lparr>stdin := [''7'', ''2'']\<rparr>"
      and rest' = "[''2'']"] i h n g
  show ?thesis by simp
qed

subsection \<open>Creating a wishlist\<close>

lemma createList_exists:
  assumes "name \<in> set (List_Tracker (conn w))" and "text_param name"
    and "lower (strip name) \<noteq> ''exit''"
  shows "createList name w =
           Return () (print (''Wishlist '' @ quoted name @ '' already exists.'') w)"
proof -
  from assms(1) have "filter (\<lambda>n. n = name) (List_Tracker (conn w)) \<noteq> []"
    by (simp add: filter_empty_conv)
  with assms(2,3) show ?thesis
    by (simp add: createList_def select_List_Tracker_def split: list.splits)
qed

text \<open>
  C7: for a name that the registry has, \<open>createList\<close> returns with the whole store
  as it was, having read nothing and written one line, that the wishlist already exists;
  the \<open>INSERT\<close> is not reached. The name is one that \<open>createList\<close> can be given and
  the registry can hold: the main menu has stripped it and has turned the cancel keyword
  away before the call, and a text of the store has no character of code 0. So, in a
  registry of such names, the choice Add Wishlist of the main menu followed by a line
  that is a name of the registry, once stripped, ends in this way; and every run of the
  program leads from a registry of such names to a registry of such names.
\<close>

theorem createList_present:
  "(name \<in> set (List_Tracker (conn w)) \<and> text_param name \<and> lower (strip name) \<noteq> ''exit'' \<longrightarrow>
      createList name w =
        Return () (print (''Wishlist '' @ quoted name @ '' already exists.'') w)) \<and>
   (registered_names (conn w1) \<and> stdin w1 = l # rest \<and>
    strip l \<in> set (List_Tracker (conn w1)) \<longrightarrow>
      add_wishlist w1 =
        Return () (print (''Wishlist '' @ quoted (strip l) @ '' already exists.'')
          (after_input ''Enter a unique wishlist name (or type 'exit' to cancel): '' w1))) \<and>
   (registered_names (conn w2) \<longrightarrow> registered_names (conn (world_of (main_menu w2))))"
proof (intro conjI impI)
  assume "name \<in> set (List_Tracker (conn w)) \<and> text_param name \<and> lower (strip name) \<noteq> ''exit''"
  then show "createList name w =
        Return () (print (''Wishlist '' @ quoted name @ '' already exists.'') w)"
    by (simp add: createList_exists)
next
  assume a: "registered_names (conn w1) \<and> stdin w1 = l # rest \<and>
    strip l \<in> set (List_Tracker (conn w1))"
  then have s: "stdin w1 = l # rest" and m: "strip l \<in> set (List_Tracker (conn w1))" by simp_all
  from a have "text_param (strip l) \<and> lower (strip (strip l)) \<noteq> ''exit''"
    by (auto simp: registered_names_def list_all_iff)
  then have t: "text_param (strip l)" and n: "lower (strip l) \<noteq> ''exit''" by simp_all
  let ?w = "after_input ''Enter a unique wishlist name (or type 'exit' to cancel): '' w1"
  have m1: "strip l \<in> set (List_Tracker (conn ?w))" using m by simp
  have n1: "lower (strip (strip l)) \<noteq> ''exit''" using n by simp
  have "add_wishlist w1 = createList (strip l) ?w"
    using n by (simp add: add_wishlist_def input_line [OF s])
  then show "add_wishlist w1 =
        Return () (print (''Wishlist '' @ quoted (strip l) @ '' already exists.'') ?w)"
    by (simp only: createList_exists [OF m1 t n1])
next
  assume "registered_names (conn w2)"
  with main_menu_steps [of w2] show "registered_names (conn (world_of (main_menu w2)))"
    by (rule app_steps_registered_names)
qed

theorem createList_present_witness:
  "''Road'' \<in> set (List_Tracker (conn registry_road)) \<and> text_param ''Road'' \<and>
   lower (strip ''Road'') \<noteq> ''exit'' \<and>
   createList ''Road'' registry_road =
     Return () (print (''Wishlist '' @ quoted ''Road'' @ '' already exists.'') registry_road) \<and>
   registered_names (conn registry_road) \<and>
   strip '' Gravel '' \<in> set (List_Tracker (conn registry_road)) \<and>
   add_wishlist (registry_road\<lparr>stdin := ['' Gravel '', ''5'']\<rparr>) =
     Return () (print (''Wishlist '' @ quoted (strip '' Gravel '') @ '' already exists.'')
       (after_input ''Enter a unique wishlist name (or type 'exit' to cancel): ''
         (registry_road\<lparr>stdin := ['' Gravel '', ''5'']\<rparr>))) \<and>
   registered_names (conn (world_of (main_menu
     (registry_road\<lparr>stdin := [''2'', ''Trail'', ''2'', ''Road'', ''5'']\<rparr>))))"
proof -
  have h: "''Road'' \<in> set (List_Tracker (conn registry_road))"
    "strip '' Gravel '' \<in> set (List_Tracker (conn registry_road))"
    by (simp_all add: registry_road_def text_defs)
  have t: "text_param ''Road''" by (simp add: text_param_def)
  have l: "lower (strip ''Road'') \<noteq> ''exit''" by (simp add: text_defs)
  have r: "registered_names (conn registry_road)"
    by (simp add: registered_names_def registry_road_def text_param_def text_defs)
  have c1: "createList ''Road'' registry_road =
     Return () (print (''Wishlist '' @ quoted ''Road'' @ '' already exists.'') registry_road)"
    using createList_present [where name = "''Road''" and w = registry_road, THEN conjunct1]
      h(1) t l by simp
  have c2: "add_wishlist (registry_road\<lparr>stdin := ['' Gravel '', ''5'']\<rparr>) =
     Return () (print (''Wishlist '' @ quoted (strip '' Gravel '') @ '' already exists.'')
       (after_input ''Enter a unique wishlist name (or type 'exit' to cancel): ''
         (registry_road\<lparr>stdin := ['' Gravel '', ''5'']\<rparr>)))"
    using createList_present [where ?w1.0 = "registry_road\<lparr>stdin := ['' Gravel '', ''5'']\<rparr>"
        and l = "'' Gravel ''" and rest = "[''5'']", THEN conjunct2, THEN conjunct1]
      r h(2) by simp
  have c3: "registered_names (conn (world_of (main_menu
     (registry_road\<lparr>stdin := [''2'', ''Trail'', ''2'', ''Road'', ''5'']\<rparr>))))"
    using createList_present [where
        ?w2.0 = "registry_road\<lparr>stdin := [''2'', ''Trail'', ''2'', ''Road'', ''5'']\<rparr>",
        THEN conjunct2, THEN conjunct2] r by simp
  from h t l c1 r c2 c3 show ?thesis by blast
qed

subsection \<open>Deleting a wishlist\<close>

text \<open>
  C8, as stated, at a wishlist that has an item: the name \<open>Road\<close> is in the registry,
  and the row of the items table that names it keeps the store from deleting it. The
  \<open>DELETE\<close> raises, \<open>deleteList\<close> does not return, and the registry still has the
  name; the same happens when the main menu is asked to remove the wishlist.
\<close>

theorem deleteList_items_counterexample:
  "''Road'' \<in> set (List_Tracker (conn road_item)) \<and>
   holds ''Road'' 5 (conn road_item) \<and>
   deleteList ''Road'' road_item = Raise ForeignKeyViolation road_item \<and>
   \<not> returned (deleteList ''Road'' road_item) \<and>
   List_Tracker (conn (world_of (deleteList ''Road'' road_item))) = [''Road''] \<and>
   remove_wishlist (road_item\<lparr>stdin := [''Road'', ''5'']\<rparr>) =
     Raise ForeignKeyViolation
       (after_input ''Enter the wishlist name to remove (or type 'exit' to cancel): ''
         (show_wishlists ''\<newline>No wishlists available to remove.''
           (road_item\<lparr>stdin := [''Road'', ''5'']\<rparr>)))"
proof -
  let ?w = "road_item\<lparr>stdin := [''Road'', ''5'']\<rparr>"
  let ?w1 = "after_input ''Enter the wishlist name to remove (or type 'exit' to cancel): ''
         (show_wishlists ''\<newline>No wishlists available to remove.'' ?w)"
  have n: "lower (strip ''Road'') \<noteq> ''exit''" "strip ''Road'' = ''Road''"
    by (simp_all add: text_defs)
  have d: "\<And>v. conn v = conn road_item \<Longrightarrow> deleteList ''Road'' v = Raise ForeignKeyViolation v"
    using n by (simp add: deleteList_def delete_List_Tracker_def road_item_def)
  have g: "get_all_wishlists ?w \<noteq> []" by (simp add: get_all_wishlists_def road_item_def)
  have s: "stdin (show_wishlists ''\<newline>No wishlists available to remove.'' ?w) = ''Road'' # [''5'']"
    by simp
  have r: "remove_wishlist ?w = deleteList ''Road'' ?w1"
    using g n by (simp add: remove_wishlist_def Let_def input_line [OF s])
  have c: "conn ?w1 = conn road_item" by simp
  show ?thesis
    unfolding r d [OF c] d [OF refl]
    by (simp add: road_item_def holds_def)
qed

text \<open>
  C8 (amended): for a name that is not the cancel keyword once stripped and lowercased
  (the main menu turns the keyword away before the call). If the name is not in the
  registry, \<open>deleteList\<close> returns with the store as it was; when some registered name
  contains the name without regard to case, it reports the names that do, in the order
  of the registry and joined by commas, as suggestions, and otherwise it reports that
  the wishlist does not exist. If the name is in the registry and no row of the items
  table names it, the registry loses that name, nothing else changes in the store, and
  the removal is reported. If the name is in the registry and a row of the items table
  names it, the store refuses the \<open>DELETE\<close>: the call raises and nothing is removed.
  \<open>deleteList\<close> reads no input. For the cancel keyword it leaves the store as it was
  and reports that the operation was cancelled.
\<close>

theorem deleteList_outcomes:
  assumes "lower (strip name) \<noteq> ''exit''"
  shows "(name \<notin> set (List_Tracker (conn w)) \<longrightarrow>
            deleteList name w =
              Return () (print
                (if \<exists>wl\<in>set (List_Tracker (conn w)). \<exists>pre post. lower wl = pre @ lower name @ post
                 then ''Wishlist '' @ quoted name @ '' does not exist. Did you mean: ''
                      @ join '', '' (filter (\<lambda>wl. contains (lower name) (lower wl))
                                       (List_Tracker (conn w))) @ ''?''
                 else ''Wishlist '' @ quoted name @ '' does not exist.'') w)) \<and>
         (name \<in> set (List_Tracker (conn w)) \<and>
          filter (\<lambda>r. wishlist_name r = name) (Wish_List (conn w)) = [] \<longrightarrow>
            deleteList name w =
              Return () (print (''Wishlist '' @ quoted name @ '' removed successfully.'')
                (w\<lparr>conn := (conn w)\<lparr>List_Tracker := removeAll name (List_Tracker (conn w))\<rparr>\<rparr>))) \<and>
         (name \<in> set (List_Tracker (conn w)) \<and>
          filter (\<lambda>r. wishlist_name r = name) (Wish_List (conn w)) \<noteq> [] \<longrightarrow>
            deleteList name w = Raise ForeignKeyViolation w) \<and>
         (contains (lower name) (lower wl) \<longleftrightarrow> (\<exists>pre post. lower wl = pre @ lower name @ post)) \<and>
         (lower (strip name') = ''exit'' \<longrightarrow>
            deleteList name' w = Return () (print ''Operation canceled.'' w))"
proof (intro conjI impI)
  assume a: "name \<notin> set (List_Tracker (conn w))"
  have "(filter (\<lambda>wl. contains (lower name) (lower wl)) (List_Tracker (conn w)) \<noteq> [])
      = (\<exists>wl\<in>set (List_Tracker (conn w)). \<exists>pre post. lower wl = pre @ lower name @ post)"
    by (simp add: filter_empty_conv contains_iff)
  with assms a show "deleteList name w =
              Return () (print
                (if \<exists>wl\<in>set (List_Tracker (conn w)). \<exists>pre post. lower wl = pre @ lower name @ post
                 then ''Wishlist '' @ quoted name @ '' does not exist. Did you mean: ''
                      @ join '', '' (filter (\<lambda>wl. contains (lower name) (lower wl))
                                       (List_Tracker (conn w))) @ ''?''
                 else ''Wishlist '' @ quoted name @ '' does not exist.'') w)"
    by (simp add: deleteList_def Let_def del: append.simps append_assoc)
next
  assume a: "name \<in> set (List_Tracker (conn w)) \<and>
          filter (\<lambda>r. wishlist_name r = name) (Wish_List (conn w)) = []"
  have "\<And>xs. filter (\<lambda>n. n \<noteq> name) xs = removeAll name xs"
    by (induct_tac xs) auto
  then have "filter (\<lambda>n. n \<noteq> name) (List_Tracker (conn w)) = removeAll name (List_Tracker (conn w))"
    by simp
  with assms a show "deleteList name w =
              Return () (print (''Wishlist '' @ quoted name @ '' removed successfully.'')
                (w\<lparr>conn := (conn w)\<lparr>List_Tracker := removeAll name (List_Tracker (conn w))\<rparr>\<rparr>))"
    by (simp add: deleteList_def Let_def delete_List_Tracker_def)
next
  assume a: "name \<in> set (List_Tracker (conn w)) \<and>
          filter (\<lambda>r. wishlist_name r = name) (Wish_List (conn w)) \<noteq> []"
  with assms show "deleteList name w = Raise ForeignKeyViolation w"
    by (simp add: deleteList_def Let_def delete_List_Tracker_def)
next
  show "contains (lower name) (lower wl) \<longleftrightarrow> (\<exists>pre post. lower wl = pre @ lower name @ post)"
    by (rule contains_iff)
next
  assume "lower (strip name') = ''exit''"
  then show "deleteList name' w = Return () (print ''Operation canceled.'' w)"
    by (simp add: deleteList_def)
qed

theorem deleteList_outcomes_witness:
  "lower (strip ''a'') \<noteq> ''exit'' \<and>
   ''a'' \<notin> set (List_Tracker (conn registry_road)) \<and>
   deleteList ''a'' registry_road =
     Return () (print (''Wishlist '' @ quoted ''a'' @ '' does not exist. Did you mean: Road, Gravel?'')
       registry_road) \<and>
   ''xyz'' \<notin> set (List_Tracker (conn registry_road)) \<and>
   deleteList ''xyz'' registry_road =
     Return () (print (''Wishlist '' @ quoted ''xyz'' @ '' does not exist.'') registry_road) \<and>
   ''Road'' \<in> set (List_Tracker (conn registry_road)) \<and>
   filter (\<lambda>r. wishlist_name r = ''Road'') (Wish_List (conn registry_road)) = [] \<and>
   deleteList ''Road'' registry_road =
     Return () (print (''Wishlist '' @ quoted ''Road'' @ '' removed successfully.'')
       (registry_road\<lparr>conn := (conn registry_road)\<lparr>List_Tracker := [''Gravel'']\<rparr>\<rparr>)) \<and>
   ''Road'' \<in> set (List_Tracker (conn bike_shop)) \<and>
   filter (\<lambda>r. wishlist_name r = ''Road'') (Wish_List (conn bike_shop)) \<noteq> [] \<and>
   deleteList ''Road'' bike_shop = Raise ForeignKeyViolation bike_shop \<and>
   lower (strip '' Exit'') = ''exit'' \<and>
   deleteList '' Exit'' registry_road = Return () (print ''Operation canceled.'' registry_road)"
proof -
  have n: "lower (strip ''a'') \<noteq> ''exit''" "lower (strip ''xyz'') \<noteq> ''exit''"
    "lower (strip ''Road'') \<noteq> ''exit''"
    and e: "lower (strip '' Exit'') = ''exit''"
    by (simp_all add: text_defs)
  have c: "contains (lower ''a'') (lower ''Road'')" "contains (lower ''a'') (lower ''Gravel'')"
    "\<not> contains (lower ''xyz'') (lower ''Road'')" "\<not> contains (lower ''xyz'') (lower ''Gravel'')"
    by (simp_all add: text_defs)
  have r: "List_Tracker (conn registry_road) = [''Road'', ''Gravel'']"
    "Wish_List (conn registry_road) = []"
    by (simp_all add: registry_road_def)
  have k: "''Road'' \<in> set (List_Tracker (conn bike_shop))"
    "filter (\<lambda>r. wishlist_name r = ''Road'') (Wish_List (conn bike_shop)) \<noteq> []"
    by (simp_all add: bike_shop_def)
  have a: "deleteList ''a'' registry_road =
     Return () (print (''Wishlist '' @ quoted ''a'' @ '' does not exist. Did you mean: Road, Gravel?'')
       registry_road)"
    using deleteList_outcomes [OF n(1), of registry_road, THEN conjunct1] c r
    by (simp add: contains_iff [symmetric])
  have b: "deleteList ''xyz'' registry_road =
     Return () (print (''Wishlist '' @ quoted ''xyz'' @ '' does not exist.'') registry_road)"
    using deleteList_outcomes [OF n(2), of registry_road, THEN conjunct1] c r
    by (simp add: contains_iff [symmetric])
  have d: "deleteList ''Road'' registry_road =
     Return () (print (''Wishlist '' @ quoted ''Road'' @ '' removed successfully.'')
       (registry_road\<lparr>conn := (conn registry_road)\<lparr>List_Tracker := [''Gravel'']\<rparr>\<rparr>))"
    using deleteList_outcomes [OF n(3), of registry_road, THEN conjunct2, THEN conjunct1] r
    by simp
  have f: "deleteList ''Road'' bike_shop = Raise ForeignKeyViolation bike_shop"
    using deleteList_outcomes [OF n(3), of bike_shop, THEN conjunct2, THEN conjunct2, THEN conjunct1] k
    by simp
  have x: "deleteList '' Exit'' registry_road = Return () (print ''Operation canceled.'' registry_road)"
    using deleteList_outcomes [OF n(1), where name' = "'' Exit''" and w = registry_road] e
    by simp
  from n(1) a b d e x r k f show ?thesis by simp
qed

subsection \<open>Ownership there and back\<close>

lemma set_owned_twice:
  assumes "list_all (\<lambda>r. wishlist_name r = wl \<and> product_id r = p \<longrightarrow> \<not> owned r) (Wish_List db)"
  shows "set_owned False wl p (set_owned True wl p db) = db"
proof -
  have "map ((\<lambda>r. if wishlist_name r = wl \<and> product_id r = p then r\<lparr>owned := False\<rparr> else r)
          \<circ> (\<lambda>r. if wishlist_name r = wl \<and> product_id r = p then r\<lparr>owned := True\<rparr> else r))
          (Wish_List db) = Wish_List db"
    using assms by (intro map_idI) (auto simp: list_all_iff)
  then show ?thesis by (simp add: set_owned_def)
qed

text \<open>
  C9: when the rows of a wishlist and product are not owned, Modify Ownership Status
  with the answer \<open>yes\<close> sets their flag and nothing else, and Modify Ownership Status
  with the answer \<open>no\<close> after it gives back the store of the start: the flag is false
  again, and quantities and all other rows are as they were.
\<close>

theorem ownership_round_trip:
  assumes "stdin w = l # a # l' # a' # rest"
    and "int4in (strip l) = Some p" and "int4in (strip l') = Some p"
    and "lower (strip a) = ''yes''" and "lower (strip a') = ''no''"
    and "list_all (\<lambda>r. wishlist_name r = wl \<and> product_id r = p \<longrightarrow> \<not> owned r)
           (Wish_List (conn w))"
  shows "finished ''Ownership status updated successfully.'' 2
           (set_owned True wl p (conn w)) w (modify_ownership wl w) \<and>
         finished ''Ownership status updated successfully.'' 2
           (conn w) (world_of (modify_ownership wl w))
           (modify_ownership wl (world_of (modify_ownership wl w)))"
proof -
  have n: "lower (strip a) \<noteq> ''exit''" "lower (strip a') \<noteq> ''exit''"
    using assms(4,5) by simp_all
  let ?w1 = "print ''Ownership status updated successfully.''
             ((after_input ''Do you own this item? (yes/no or type 'exit' to cancel): ''
                (after_input ''Enter the product ID to modify ownership status (or type 'exit' to cancel): '' w))
              \<lparr>conn := set_owned (lower (strip a) = ''yes'') wl p (conn w)\<rparr>)"
  have r1: "modify_ownership wl w = Return () ?w1"
    by (rule modify_ownership_update [OF assms(1,2) n(1)])
  have s1: "stdin ?w1 = l' # a' # rest" using assms(1) by simp
  have c1: "conn ?w1 = set_owned True wl p (conn w)" using assms(4) by simp
  have r2: "modify_ownership wl ?w1 =
           Return () (print ''Ownership status updated successfully.''
             ((after_input ''Do you own this item? (yes/no or type 'exit' to cancel): ''
                (after_input ''Enter the product ID to modify ownership status (or type 'exit' to cancel): '' ?w1))
              \<lparr>conn := set_owned (lower (strip a') = ''yes'') wl p (conn ?w1)\<rparr>))"
    by (rule modify_ownership_update [OF s1 assms(3) n(2)])
  have f: "lower (strip a') \<noteq> ''yes''" using assms(5) by simp
  show ?thesis
    unfolding r1 world_of_simps r2
    using assms(1,4) f set_owned_twice [OF assms(6)]
    by (simp add: finished_Return)
qed

theorem ownership_round_trip_witness:
  "int4in (strip ''5'') = Some 5 \<and> int4in (strip '' 5'') = Some 5 \<and>
   lower (strip ''yes'') = ''yes'' \<and> lower (strip ''NO'') = ''no'' \<and>
   holds ''Road'' 5 (conn bike_shop) \<and>
   set_owned True ''Road'' 5 (conn bike_shop) \<noteq> conn bike_shop \<and>
   finished ''Ownership status updated successfully.'' 2
     (set_owned True ''Road'' 5 (conn bike_shop))
     (bike_shop\<lparr>stdin := [''5'', ''yes'', '' 5'', ''NO'', ''7'']\<rparr>)
     (modify_ownership ''Road'' (bike_shop\<lparr>stdin := [''5'', ''yes'', '' 5'', ''NO'', ''7'']\<rparr>)) \<and>
   finished ''Ownership status updated successfully.'' 2 (conn bike_shop)
     (world_of (modify_ownership ''Road''
        (bike_shop\<lparr>stdin := [''5'', ''yes'', '' 5'', ''NO'', ''7'']\<rparr>)))
     (modify_ownership ''Road'' (world_of (modify_ownership ''Road''
        (bike_shop\<lparr>stdin := [''5'', ''yes'', '' 5'', ''NO'', ''7'']\<rparr>))))"
proof -
  let ?w = "bike_shop\<lparr>stdin := [''5'', ''yes'', '' 5'', ''NO'', ''7'']\<rparr>"
  have i: "int4in (strip ''5'') = Some 5" "int4in (strip '' 5'') = Some 5"
    by (simp_all add: text_defs)
  have y: "lower (strip ''yes'') = ''yes''" "lower (strip ''NO'') = ''no''"
    by (simp_all add: text_defs)
  have h: "holds ''Road'' 5 (conn bike_shop)" by (simp add: holds_def bike_shop_def)
  have d: "set_owned True ''Road'' 5 (conn bike_shop) \<noteq> conn bike_shop"
    by (simp add: set_owned_def bike_shop_def)
  have s: "stdin ?w = ''5'' # ''yes'' # '' 5'' # ''NO'' # [''7'']" by simp
  have o: "list_all (\<lambda>r. wishlist_name r = ''Road'' \<and> product_id r = 5 \<longrightarrow> \<not> owned r)
           (Wish_List (conn ?w))"
    by (simp add: bike_shop_def)
  from ownership_round_trip [OF s i y o] i y h d show ?thesis by simp
qed

subsection \<open>The answer that sets ownership\<close>

text \<open>
  C10: in Modify Ownership Status, for an answer other than the cancel keyword, the flag
  written is true exactly when the answer, stripped and lowercased, is \<open>yes\<close>; any
  other answer writes false.
\<close>

theorem ownership_as_answered:
  assumes "stdin w = l # a # rest" and "int4in (strip l) = Some p"
    and "lower (strip a) \<noteq> ''exit''"
  shows "finished ''Ownership status updated successfully.'' 2
           (set_owned (lower (strip a) = ''yes'') wl p (conn w)) w (modify_ownership wl w)"
  unfolding modify_ownership_update [OF assms]
  using assms(1) by (simp add: finished_Return)

theorem ownership_as_answered_witness:
  "int4in (strip ''5'') = Some 5 \<and>
   lower (strip '' YES '') = ''yes'' \<and>
   finished ''Ownership status updated successfully.'' 2
     (set_owned True ''Road'' 5 (conn bike_shop)) (bike_shop\<lparr>stdin := [''5'', '' YES '']\<rparr>)
     (modify_ownership ''Road'' (bike_shop\<lparr>stdin := [''5'', '' YES '']\<rparr>)) \<and>
   lower (strip ''y'') \<noteq> ''yes'' \<and>
   finished ''Ownership status updated successfully.'' 2
     (set_owned False ''Road'' 5 (conn bike_shop)) (bike_shop\<lparr>stdin := [''5'', ''y'']\<rparr>)
     (modify_ownership ''Road'' (bike_shop\<lparr>stdin := [''5'', ''y'']\<rparr>)) \<and>
   lower (strip ''true'') \<noteq> ''yes'' \<and>
   finished ''Ownership status updated successfully.'' 2
     (set_owned False ''Road'' 5 (conn bike_shop)) (bike_shop\<lparr>stdin := [''5'', ''true'']\<rparr>)
     (modify_ownership ''Road'' (bike_shop\<lparr>stdin := [''5'', ''true'']\<rparr>)) \<and>
   lower (strip []) \<noteq> ''yes'' \<and>
   finished ''Ownership status updated successfully.'' 2
     (set_owned False ''Road'' 5 (conn bike_shop)) (bike_shop\<lparr>stdin := [''5'', []]\<rparr>)
     (modify_ownership ''Road'' (bike_shop\<lparr>stdin := [''5'', []]\<rparr>))"
proof -
  have i: "int4in (strip ''5'') = Some 5" by (simp add: text_defs)
  have y: "lower (strip '' YES '') = ''yes''" "lower (strip ''y'') \<noteq> ''yes''"
    "lower (strip ''true'') \<noteq> ''yes''" "lower (strip []) \<noteq> ''yes''"
    by (simp_all add: text_defs)
  have n: "lower (strip '' YES '') \<noteq> ''exit''" "lower (strip ''y'') \<noteq> ''exit''"
    "lower (strip ''true'') \<noteq> ''exit''" "lower (strip []) \<noteq> ''exit''"
    by (simp_all add: text_defs)
  have s: "\<And>a. stdin (bike_shop\<lparr>stdin := [''5'', a]\<rparr>) = ''5'' # a # []" by simp
  from ownership_as_answered [OF s i n(1), of "''Road''"]
    ownership_as_answered [OF s i n(2), of "''Road''"]
    ownership_as_answered [OF s i n(3), of "''Road''"]
    ownership_as_answered [OF s i n(4), of "''Road''"] i y
  show ?thesis by simp
qed

end
